theory Spec2Isabelle
  imports Complex_Main "HOL-Library.Log_Nat"
begin

section \<open>Errors, script parameters and configuration\<close>

text \<open>
  The program is one script, \<^verbatim>\<open>train.py\<close>, executed top to bottom. Each block of the
  script is a function of this theory, the module-level variables it updates are the
  fields of a state record, and every \<^verbatim>\<open>raise\<close> reachable in the script is an error value.
  An outcome is either the final state or an error together with the events performed
  until the error was raised.
\<close>

datatype error =
    NotImplementedError
  | NameError
  | ZeroDivisionError
  | IndexError
  | ValueError
  | OverflowError
  | AssertionError
  | FileNotFoundError

text \<open>
  The constants assigned in lines 52-74 of the script. The claims quantify over them
  (every accumulation window, every model family), so they are the fields of a record;
  \<open>script_settings\<close> below holds the values the script assigns.
\<close>

record settings =
  nEpochs :: int
  resume_epoch :: int
  trainBatchSize :: int
  testBatchSize :: int
  useTest :: bool
  nTestInterval :: int
  snapshot :: int
  nAveGrad :: int
  lr :: real
  wd :: real
  momentum :: real
  epoch_size :: int
  Model :: string
  backbone :: string
  num_of_classes :: nat
  imsize :: nat
  output_stride :: nat
  numInputChannels :: nat

text \<open>A number read from the YAML file: a Python int, or a finite Python float, the
  double \<open>m * 2 ^ e\<close>, written \<open>PyFloat m e\<close>.\<close>

datatype number = PyInt int | PyFloat int int

record ds_entry =
  images :: string
  labels :: string

record config =
  batchSize :: int
  train_datasets :: "ds_entry list"
  percentageDataForTraining :: number
  datasetsSynthetic :: "ds_entry list"
  datasetsReal :: "ds_entry list"

definition script_settings :: "config \<Rightarrow> settings" where
  "script_settings C =
     \<lparr> nEpochs = 100, resume_epoch = 0, trainBatchSize = batchSize C, testBatchSize = 1,
       useTest = True, nTestInterval = 1, snapshot = 2, nAveGrad = 1,
       lr = 1 / 1000000, wd = 5 / 100, momentum = 9 / 10, epoch_size = 1,
       Model = ''deeplab'', backbone = ''xception'', num_of_classes = 2, imsize = 512,
       output_stride = 8, numInputChannels = 3 \<rparr>"


section \<open>Network definition (lines 122-150)\<close>

datatype net =
    Xception_DeepLabv3_plus nat nat nat bool
  | Resnet_DeepLabv3_plus nat nat nat bool
  | Unet nat

datatype optimizer_kind = SGD | Adam

text \<open>An optimizer instance. \<open>opt_steps\<close> counts the \<^verbatim>\<open>step()\<close> calls this instance has
  performed: its momentum buffers are empty exactly when the count is 0, as it is for
  every newly constructed instance.\<close>

record optimizer =
  opt_kind :: optimizer_kind
  opt_lr :: real
  opt_momentum :: real
  opt_weight_decay :: real
  opt_steps :: nat

record StepLR =
  step_size :: nat
  gamma :: real
  base_lr :: real
  last_epoch :: int

datatype criterion = cross_entropy2d | CrossEntropyLoss

record network =
  the_net :: net
  modelName :: string
  the_optimizer :: optimizer
  the_scheduler :: "StepLR option"
  the_criterion :: criterion

definition new_SGD :: "real \<Rightarrow> real \<Rightarrow> real \<Rightarrow> optimizer" where
  "new_SGD rate mom decay =
     \<lparr> opt_kind = SGD, opt_lr = rate, opt_momentum = mom, opt_weight_decay = decay,
       opt_steps = 0 \<rparr>"

definition new_Adam :: "real \<Rightarrow> real \<Rightarrow> optimizer" where
  "new_Adam rate decay =
     \<lparr> opt_kind = Adam, opt_lr = rate, opt_momentum = 0, opt_weight_decay = decay,
       opt_steps = 0 \<rparr>"

definition network_definition :: "settings \<Rightarrow> error + network" where
  "network_definition P =
     (if Model P = ''deeplab'' then
        (if backbone P = ''xception'' then
           Inr \<lparr> the_net = Xception_DeepLabv3_plus (numInputChannels P) (num_of_classes P)
                              (output_stride P) True,
                 modelName = ''deeplabv3plus-'' @ backbone P,
                 the_optimizer = new_SGD (lr P) (momentum P) (wd P),
                 the_scheduler = None, the_criterion = cross_entropy2d \<rparr>
         else if backbone P = ''resnet'' then
           Inr \<lparr> the_net = Resnet_DeepLabv3_plus (numInputChannels P) (num_of_classes P)
                              (output_stride P) True,
                 modelName = ''deeplabv3plus-'' @ backbone P,
                 the_optimizer = new_SGD (lr P) (momentum P) (wd P),
                 the_scheduler = None, the_criterion = cross_entropy2d \<rparr>
         else Inl NotImplementedError)
      else if Model P = ''unet'' then
        Inr \<lparr> the_net = Unet (num_of_classes P), modelName = ''unet'',
              the_optimizer = new_Adam (1 / 10000) (1 / 10000),
              the_scheduler =
                Some \<lparr> step_size = 7, gamma = 1 / 10, base_lr = 1 / 10000, last_epoch = 0 \<rparr>,
              the_criterion = CrossEntropyLoss \<rparr>
      else Inl NotImplementedError)"


section \<open>Python numbers: \<^verbatim>\<open>int(f * len(db))\<close> (line 225)\<close>

text \<open>
  \<^verbatim>\<open>config.train.percentageDataForTraining * len(db)\<close> multiplies the configured number by
  a Python int. When the number is a float, Python converts the int to a double and
  multiplies in IEEE-754 binary64, rounding to nearest, ties to even; \<^verbatim>\<open>int()\<close> then
  truncates towards zero. A double is kept as mantissa and exponent, so the arithmetic
  below is integer arithmetic. \<open>round_half_even a k\<close> is \<open>a / 2 ^ k\<close> rounded to the nearest
  integer, ties to even, for \<open>a \<ge> 0\<close>.
\<close>

definition round_half_even :: "int \<Rightarrow> nat \<Rightarrow> int" where
  "round_half_even a k =
     (let q = a div 2 ^ k; r = a mod 2 ^ k; h = 2 ^ k div 2
      in if k = 0 then a
         else if r < h then q
         else if h < r then q + 1
         else if even q then q else q + 1)"

text \<open>Rounding the exact value \<open>m * 2 ^ e\<close> to a double: at most 53 significant bits, and no
  bit below \<open>2 ^ -1074\<close>.\<close>

definition fl_round :: "int \<Rightarrow> int \<Rightarrow> int \<times> int" where
  "fl_round m e =
     (let k = max (bitlen \<bar>m\<bar> - 53) (- 1074 - e)
      in if k \<le> 0 then (m, e) else (sgn m * round_half_even \<bar>m\<bar> (nat k), e + k))"

text \<open>A rounded result of magnitude \<open>2 ^ 1024\<close> or more is the float infinity.\<close>

definition fl_overflows :: "int \<times> int \<Rightarrow> bool" where
  "fl_overflows x = (1024 < bitlen \<bar>fst x\<bar> + snd x)"

definition int_of_float :: "int \<times> int \<Rightarrow> int" where
  "int_of_float x =
     (let m = fst x; e = snd x
      in if 0 \<le> e then m * 2 ^ nat e else sgn m * (\<bar>m\<bar> div 2 ^ nat (- e)))"

text \<open>\<^verbatim>\<open>int(f * n)\<close>. Converting an int beyond the float range raises OverflowError, and so
  does \<^verbatim>\<open>int()\<close> of an infinite product.\<close>

definition int_of_times :: "number \<Rightarrow> int \<Rightarrow> error + int" where
  "int_of_times f n =
     (case f of
        PyInt i \<Rightarrow> Inr (i * n)
      | PyFloat m e \<Rightarrow>
          (let nf = fl_round n 0
           in if fl_overflows nf then Inl OverflowError
              else (let p = fl_round (m * fst nf) (e + snd nf)
                    in if fl_overflows p then Inl OverflowError else Inr (int_of_float p))))"

text \<open>The exact value of a configured number.\<close>

definition number_val :: "number \<Rightarrow> real" where
  "number_val f =
     (case f of
        PyInt i \<Rightarrow> of_int i
      | PyFloat m e \<Rightarrow> (if 0 \<le> e then of_int m * 2 ^ nat e else of_int m / 2 ^ nat (- e)))"


section \<open>Control flow helpers\<close>

text \<open>Sequencing of fallible steps, and the \<^verbatim>\<open>for\<close> loop over a list: the loop stops at the
  first step that raises, as the exception would.\<close>

definition and_then :: "'e + 'a \<Rightarrow> ('a \<Rightarrow> 'e + 'b) \<Rightarrow> 'e + 'b" where
  "and_then r f = (case r of Inl e \<Rightarrow> Inl e | Inr a \<Rightarrow> f a)"

fun for_each :: "('a \<Rightarrow> 's \<Rightarrow> 'e + 's) \<Rightarrow> 'a list \<Rightarrow> 's \<Rightarrow> 'e + 's" where
  "for_each f [] s = Inr s"
| "for_each f (x # xs) s = (case f x s of Inl e \<Rightarrow> Inl e | Inr s' \<Rightarrow> for_each f xs s')"


section \<open>Dataset assembly (lines 185-246)\<close>

text \<open>The second argument of \<^verbatim>\<open>iaa.Resize\<close> is the interpolation, given as the integer
  \<^verbatim>\<open>0\<close> in the training pipeline and as the name \<^verbatim>\<open>'cubic'\<close> in the test pipeline.\<close>

datatype interpolation = Interp_code nat | Interp_name string

datatype augmenter = Resize nat nat interpolation

text \<open>How the augmentation library reads the interpolation argument: the integer codes are
  those of OpenCV (0 nearest, 1 linear, 2 cubic, 3 area).\<close>

definition interpolation_method :: "interpolation \<Rightarrow> string" where
  "interpolation_method i =
     (case i of
        Interp_name s \<Rightarrow> s
      | Interp_code c \<Rightarrow>
          (if c = 0 then ''nearest'' else if c = 1 then ''linear''
           else if c = 2 then ''cubic'' else if c = 3 then ''area'' else ''invalid''))"

definition augs_train :: "settings \<Rightarrow> augmenter list" where
  "augs_train P = [Resize (imsize P) (imsize P) (Interp_code 0)]"

definition augs_test :: "settings \<Rightarrow> augmenter list" where
  "augs_test P = [Resize (imsize P) (imsize P) (Interp_name ''cubic'')]"

text \<open>The interpolation methods a pipeline resizes with, one per augmenter.\<close>

definition interpolations :: "augmenter list \<Rightarrow> string list" where
  "interpolations augs = map (\<lambda>a. case a of Resize h w i \<Rightarrow> interpolation_method i) augs"

record AlphaPilotSegmentation =
  input_dir :: string
  label_dir :: "string option"
  transform :: "augmenter list"

text \<open>A sample is named by the data source it comes from and its index there.\<close>

type_synonym sample = "AlphaPilotSegmentation \<times> nat"

record DataLoader =
  dl_dataset :: "sample list"
  dl_batch_size :: int
  dl_shuffle :: bool
  dl_num_workers :: nat
  dl_drop_last :: bool

datatype event =
    dataset_built AlphaPilotSegmentation
  | loader_built DataLoader
  | net_train
  | net_eval
  | add_scalar string real int
  | add_image string nat int
  | print_numImages string int int
  | loss_backward
  | optimizer_step
  | optimizer_zero_grad
  | scheduler_step
  | SGD_built real
  | model_saved int
  | test_img_saved int
  | writer_close

text \<open>
  What the script takes from outside: the number of samples each data source finds on
  disk (\<^verbatim>\<open>len(db)\<close>; the dataset class is not part of the script), the sort keys that
  stand for the random sampler's draw in each epoch, the numbers computed by the
  network, the loss function and the IoU helper, which the script treats as black boxes,
  and which epochs have a saved model on disk to resume from.
\<close>

record env =
  len_db :: "AlphaPilotSegmentation \<Rightarrow> nat"
  rand_key :: "int \<Rightarrow> nat \<Rightarrow> nat"
  train_loss :: "int \<Rightarrow> int \<Rightarrow> real"
  eval_loss :: "string \<Rightarrow> int \<Rightarrow> int \<Rightarrow> real"
  eval_iou :: "string \<Rightarrow> int \<Rightarrow> int \<Rightarrow> real"
  has_checkpoint :: "int \<Rightarrow> bool"

definition items :: "env \<Rightarrow> AlphaPilotSegmentation \<Rightarrow> sample list" where
  "items E db = map (Pair db) [0..<len_db E db]"

text \<open>\<^verbatim>\<open>torch.utils.data.Subset(db, range(train_size))\<close>: the range is empty when
  \<open>train_size\<close> is not positive.\<close>

definition Subset :: "AlphaPilotSegmentation \<Rightarrow> int \<Rightarrow> sample list" where
  "Subset db train_size = map (Pair db) [0..<nat train_size]"

text \<open>The module-level variables of the assembly block; a variable not yet assigned is
  \<open>None\<close>.\<close>

record assembly =
  db_train_list :: "sample list list"
  db_validation :: "AlphaPilotSegmentation option"
  db_test :: "AlphaPilotSegmentation option"
  db_test_list :: "AlphaPilotSegmentation list"
  built :: "event list"

definition assembly0 :: assembly where
  "assembly0 =
     \<lparr> db_train_list = [], db_validation = None, db_test = None, db_test_list = [],
       built = [] \<rparr>"

text \<open>The three constructor calls of lines 223, 232 and 239.\<close>

definition train_source :: "settings \<Rightarrow> ds_entry \<Rightarrow> AlphaPilotSegmentation" where
  "train_source P d =
     \<lparr> input_dir = images d, label_dir = Some (labels d), transform = augs_train P \<rparr>"

definition validation_source :: "settings \<Rightarrow> ds_entry \<Rightarrow> AlphaPilotSegmentation" where
  "validation_source P d =
     \<lparr> input_dir = images d, label_dir = Some (labels d), transform = augs_train P \<rparr>"

definition test_source :: "settings \<Rightarrow> ds_entry \<Rightarrow> AlphaPilotSegmentation" where
  "test_source P d =
     \<lparr> input_dir = images d, label_dir = None, transform = augs_test P \<rparr>"

text \<open>Lines 222-227, the body of the loop over \<^verbatim>\<open>config.train.datasets\<close>.\<close>

definition add_train ::
  "settings \<Rightarrow> config \<Rightarrow> env \<Rightarrow> ds_entry \<Rightarrow> assembly \<Rightarrow> (error \<times> event list) + assembly" where
  "add_train P C E d A =
     (let db = train_source P d;
          evs = built A @ [dataset_built db]
      in case int_of_times (percentageDataForTraining C) (int (len_db E db)) of
           Inl e \<Rightarrow> Inl (e, evs)
         | Inr train_size \<Rightarrow>
             Inr (A\<lparr> db_train_list := db_train_list A @ [Subset db train_size],
                     built := evs \<rparr>))"

text \<open>Lines 231-236, the body of the loop over \<^verbatim>\<open>config.eval.datasetsSynthetic\<close>.\<close>

definition add_validation ::
  "settings \<Rightarrow> ds_entry \<Rightarrow> assembly \<Rightarrow> (error \<times> event list) + assembly" where
  "add_validation P d A =
     (let db = validation_source P d
      in Inr (A\<lparr> db_validation := Some db, built := built A @ [dataset_built db] \<rparr>))"

text \<open>Lines 238-240, the body of the loop over \<^verbatim>\<open>config.eval.datasetsReal\<close>.\<close>

definition add_test ::
  "settings \<Rightarrow> ds_entry \<Rightarrow> assembly \<Rightarrow> (error \<times> event list) + assembly" where
  "add_test P d A =
     (let db = test_source P d
      in Inr (A\<lparr> db_test := Some db, db_test_list := db_test_list A @ [db],
                 built := built A @ [dataset_built db] \<rparr>))"

text \<open>\<^verbatim>\<open>DataLoader(...)\<close>: with \<^verbatim>\<open>shuffle=True\<close> the random sampler is built first and refuses
  an empty dataset; the batch sampler then refuses a batch size that is not positive.\<close>

definition new_DataLoader ::
  "sample list \<Rightarrow> int \<Rightarrow> bool \<Rightarrow> nat \<Rightarrow> bool \<Rightarrow> error + DataLoader" where
  "new_DataLoader ds B sh nw dl =
     (if sh \<and> ds = [] then Inl ValueError
      else if B \<le> 0 then Inl ValueError
      else Inr \<lparr> dl_dataset = ds, dl_batch_size = B, dl_shuffle = sh, dl_num_workers = nw,
                 dl_drop_last = dl \<rparr>)"

record loaders =
  trainloader :: DataLoader
  validationloader :: DataLoader
  testloader :: DataLoader
  assembled :: "event list"

text \<open>Line 229: \<^verbatim>\<open>ConcatDataset\<close> asserts that its list is not empty.\<close>

definition ConcatDataset :: "assembly \<Rightarrow> (error \<times> event list) + sample list" where
  "ConcatDataset A =
     (if db_train_list A = [] then Inl (AssertionError, built A)
      else Inr (concat (db_train_list A)))"

text \<open>Lines 242-246. Reading \<^verbatim>\<open>db_validation\<close> (line 242) or \<^verbatim>\<open>db_test\<close> (line 246) before any
  assignment is a NameError.\<close>

definition build_loaders ::
  "settings \<Rightarrow> env \<Rightarrow> sample list \<Rightarrow> assembly \<Rightarrow> (error \<times> event list) + loaders" where
  "build_loaders P E db_train A =
     (case db_validation A of
        None \<Rightarrow> Inl (NameError, built A)
      | Some dbv \<Rightarrow>
         (case new_DataLoader db_train (trainBatchSize P) True 4 True of
            Inl e \<Rightarrow> Inl (e, built A)
          | Inr trl \<Rightarrow>
             (case new_DataLoader (items E dbv) (trainBatchSize P) False 4 True of
                Inl e \<Rightarrow> Inl (e, built A @ [loader_built trl])
              | Inr vall \<Rightarrow>
                 (case db_test A of
                    None \<Rightarrow> Inl (NameError, built A @ [loader_built trl, loader_built vall])
                  | Some dbt \<Rightarrow>
                     (case new_DataLoader (items E dbt) (trainBatchSize P) False 4 True of
                        Inl e \<Rightarrow>
                          Inl (e, built A @ [loader_built trl, loader_built vall])
                      | Inr tsl \<Rightarrow>
                          Inr \<lparr> trainloader = trl, validationloader = vall,
                                testloader = tsl,
                                assembled = built A @ [loader_built trl,
                                  loader_built vall, loader_built tsl] \<rparr>)))))"

text \<open>Lines 221-246 in order: the training sources, their concatenation, the evaluation
  sources, the loaders.\<close>

definition assemble ::
  "settings \<Rightarrow> config \<Rightarrow> env \<Rightarrow> (error \<times> event list) + loaders" where
  "assemble P C E =
     and_then (for_each (add_train P C E) (train_datasets C) assembly0) (\<lambda>A1.
     and_then (ConcatDataset A1) (\<lambda>db_train.
     and_then (for_each (add_validation P) (datasetsSynthetic C) A1) (\<lambda>A2.
     and_then (for_each (add_test P) (datasetsReal C) A2) (\<lambda>A3.
     build_loaders P E db_train A3))))"


section \<open>Batches of a loader\<close>

text \<open>The batch sampler cuts the sampled order into consecutive batches of the batch size;
  with \<^verbatim>\<open>drop_last\<close> a trailing shorter batch is not yielded.\<close>

function batch_sampler :: "nat \<Rightarrow> bool \<Rightarrow> 'a list \<Rightarrow> 'a list list" where
  "batch_sampler B dl xs =
     (if B = 0 \<or> xs = [] then []
      else if length xs < B then (if dl then [] else [xs])
      else take B xs # batch_sampler B dl (drop B xs))"
  by pat_completeness auto
termination
  by (relation "measure (\<lambda>(B, dl, xs). length xs)") auto

declare batch_sampler.simps [simp del]

text \<open>The random sampler yields the samples in the order of the keys drawn for the epoch;
  every permutation arises from some keys.\<close>

definition sampled_order :: "env \<Rightarrow> int \<Rightarrow> DataLoader \<Rightarrow> sample list" where
  "sampled_order E epoch L =
     (if dl_shuffle L
      then map snd (sort_key fst
             (zip (map (rand_key E epoch) [0..<length (dl_dataset L)]) (dl_dataset L)))
      else dl_dataset L)"

definition batches_of :: "env \<Rightarrow> int \<Rightarrow> DataLoader \<Rightarrow> sample list list" where
  "batches_of E epoch L =
     batch_sampler (nat (dl_batch_size L)) (dl_drop_last L) (sampled_order E epoch L)"

text \<open>\<^verbatim>\<open>len(loader)\<close>.\<close>

definition len_loader :: "DataLoader \<Rightarrow> int" where
  "len_loader L =
     (let n = int (length (dl_dataset L)); B = dl_batch_size L
      in if dl_drop_last L then n div B else (n + B - 1) div B)"

text \<open>Lines 249-251: the lengths of the three passes.\<close>

definition num_img_tr :: "loaders \<Rightarrow> int" where
  "num_img_tr L = len_loader (trainloader L)"

definition num_img_val :: "loaders \<Rightarrow> int" where
  "num_img_val L = len_loader (validationloader L)"

definition num_img_ts :: "loaders \<Rightarrow> int" where
  "num_img_ts L = len_loader (testloader L)"


section \<open>The module-level variables of the loop\<close>

record state =
  optimizer :: optimizer
  exp_lr_scheduler :: "StepLR option"
  running_loss_tr :: real
  running_loss_val :: real
  running_loss_ts :: real
  aveGrad :: int
  global_step :: int
  total_iou :: real
  images_list :: nat
  trace :: "event list"

type_synonym outcome = "(error \<times> event list) + state"

definition emit :: "event \<Rightarrow> state \<Rightarrow> state" where
  "emit e s = s\<lparr> trace := trace s @ [e] \<rparr>"

definition raise :: "error \<Rightarrow> state \<Rightarrow> outcome" where
  "raise e s = Inl (e, trace s)"

text \<open>What a run has done when it ends, normally or by an exception.\<close>

definition events_of :: "outcome \<Rightarrow> event list" where
  "events_of r = (case r of Inl x \<Rightarrow> snd x | Inr s \<Rightarrow> trace s)"

text \<open>The grids written to the log under a tag, by the step each is written at.\<close>

fun images_written :: "string \<Rightarrow> event list \<Rightarrow> int list" where
  "images_written tag [] = []"
| "images_written tag (add_image t n g # evs) =
     (if t = tag then g # images_written tag evs else images_written tag evs)"
| "images_written tag (e # evs) = images_written tag evs"

text \<open>Lines 253-257, after the assembly.\<close>

definition init_state :: "network \<Rightarrow> event list \<Rightarrow> state" where
  "init_state nw evs =
     \<lparr> optimizer = the_optimizer nw, exp_lr_scheduler = the_scheduler nw,
       running_loss_tr = 0, running_loss_val = 0, running_loss_ts = 0,
       aveGrad = 0, global_step = 0, total_iou = 0, images_list = 0, trace = evs \<rparr>"


section \<open>Learning rate at the start of an epoch (lines 265-271)\<close>

text \<open>Modelled from the spec: \<^verbatim>\<open>utils.lr_poly\<close> is defined in \<^verbatim>\<open>dataloaders/utils.py\<close>, which
  is not among the sources. The spec gives its value as
  rate = base_rate * (1 - epoch/total_epochs)^0.9, the exponent being the last argument.\<close>

definition lr_poly :: "real \<Rightarrow> int \<Rightarrow> int \<Rightarrow> real \<Rightarrow> real" where
  "lr_poly base_rate epoch total_epochs pw =
     base_rate * (1 - of_int epoch / of_int total_epochs) powr pw"

text \<open>\<^verbatim>\<open>StepLR.step()\<close>: the rate is the base rate times \<open>gamma\<close> to the number of completed
  periods of \<open>step_size\<close> epochs.\<close>

definition StepLR_step :: "StepLR \<Rightarrow> optimizer \<Rightarrow> StepLR \<times> optimizer" where
  "StepLR_step sch opt =
     (let sch' = sch\<lparr> last_epoch := last_epoch sch + 1 \<rparr>
      in (sch', opt\<lparr> opt_lr := base_lr sch
                       * gamma sch ^ nat (last_epoch sch' div int (step_size sch)) \<rparr>))"

definition adjust_lr :: "settings \<Rightarrow> int \<Rightarrow> state \<Rightarrow> outcome" where
  "adjust_lr P epoch s =
     (if Model P = ''unet'' then
        (case exp_lr_scheduler s of
           None \<Rightarrow> raise NameError s
         | Some sch \<Rightarrow>
             (let r = StepLR_step sch (optimizer s)
              in Inr (emit scheduler_step
                        (s\<lparr> exp_lr_scheduler := Some (fst r), optimizer := snd r \<rparr>))))
      else if epoch_size P = 0 then raise ZeroDivisionError s
      else if epoch mod epoch_size P = epoch_size P - 1 then
        (let lr_new = lr_poly (lr P) epoch (nEpochs P) (9 / 10)
         in Inr (emit (SGD_built lr_new)
                   (s\<lparr> optimizer := new_SGD lr_new (momentum P) (wd P) \<rparr>)))
      else Inr s)"


section \<open>One training batch (lines 276-333)\<close>

text \<open>Lines 280-291: the step counter, the forward pass and the running loss.\<close>

definition begin_batch :: "env \<Rightarrow> int \<Rightarrow> int \<Rightarrow> state \<Rightarrow> state" where
  "begin_batch E epoch ii s =
     (let s1 = s\<lparr> global_step := global_step s + 1 \<rparr>;
          s2 = emit (add_scalar ''Epoch Num'' (of_int epoch) (global_step s1)) s1
      in s2\<lparr> running_loss_tr := running_loss_tr s2 + train_loss E epoch ii \<rparr>)"

text \<open>Lines 294-301: the report at the end of a pass.\<close>

definition report_train ::
  "settings \<Rightarrow> int \<Rightarrow> int \<Rightarrow> int \<Rightarrow> int \<Rightarrow> state \<Rightarrow> outcome" where
  "report_train P epoch n_tr ii shape0 s =
     (if n_tr = 0 then raise ZeroDivisionError s
      else if ii mod n_tr = n_tr - 1 then
        (let s1 = s\<lparr> running_loss_tr := running_loss_tr s / of_int n_tr \<rparr>;
             s2 = emit (add_scalar ''data/total_loss_epoch'' (running_loss_tr s1)
                          (global_step s1)) s1;
             s3 = emit (print_numImages ''Train'' epoch (ii * trainBatchSize P + shape0)) s2
         in Inr (s3\<lparr> running_loss_tr := 0 \<rparr>))
      else Inr s)"

text \<open>Lines 304-313: the scaled loss is backpropagated, and the weights are updated once
  in \<^verbatim>\<open>p['nAveGrad']\<close> forward passes. \<^verbatim>\<open>loss /= 0\<close> on a tensor does not raise; the
  remainder by zero in line 309 does.\<close>

definition backward_and_step ::
  "settings \<Rightarrow> env \<Rightarrow> int \<Rightarrow> int \<Rightarrow> state \<Rightarrow> outcome" where
  "backward_and_step P E epoch ii s =
     (let loss = train_loss E epoch ii / of_int (nAveGrad P);
          s1 = emit loss_backward s;
          s2 = s1\<lparr> aveGrad := aveGrad s1 + 1 \<rparr>
      in if nAveGrad P = 0 then raise ZeroDivisionError s2
         else if aveGrad s2 mod nAveGrad P = 0 then
           (let s3 = emit (add_scalar ''data/total_loss_iter'' loss (global_step s2)) s2;
                s4 = emit optimizer_step
                       (s3\<lparr> optimizer := (optimizer s3)
                               \<lparr> opt_steps := Suc (opt_steps (optimizer s3)) \<rparr> \<rparr>);
                s5 = emit optimizer_zero_grad s4
            in Inr (s5\<lparr> aveGrad := 0 \<rparr>))
         else Inr s2)"

text \<open>Lines 321-332: the grid holds an image, a prediction and a label per row. The rows
  are the first three items of the batch; \<^verbatim>\<open>torch.squeeze(..., 0)\<close> removes the batch
  dimension of a single item, and the rows are then its channels.\<close>

definition train_grid_images :: "settings \<Rightarrow> int \<Rightarrow> nat" where
  "train_grid_images P shape0 =
     3 * (if min 3 shape0 = 1 then min (numInputChannels P) 3 else nat (min 3 shape0))"

text \<open>Lines 315-333: the cadence of the training visualisation.\<close>

definition plot_per_iter :: "int \<Rightarrow> int" where
  "plot_per_iter n_tr = (if n_tr < 10 then n_tr else 10)"

definition show_images :: "settings \<Rightarrow> int \<Rightarrow> int \<Rightarrow> int \<Rightarrow> state \<Rightarrow> outcome" where
  "show_images P n_tr ii shape0 s =
     (if plot_per_iter n_tr = 0 then raise ZeroDivisionError s
      else if n_tr div plot_per_iter n_tr = 0 then raise ZeroDivisionError s
      else if ii mod (n_tr div plot_per_iter n_tr) = 0 then
        Inr (emit (add_image ''Train'' (train_grid_images P shape0) (global_step s)) s)
      else Inr s)"

definition train_batch ::
  "settings \<Rightarrow> env \<Rightarrow> int \<Rightarrow> int \<Rightarrow> nat \<times> sample list \<Rightarrow> state \<Rightarrow> outcome" where
  "train_batch P E epoch n_tr x s =
     (let ii = int (fst x); shape0 = int (length (snd x))
      in and_then (report_train P epoch n_tr ii shape0 (begin_batch E epoch ii s)) (\<lambda>s1.
         and_then (backward_and_step P E epoch ii s1) (\<lambda>s2.
         show_images P n_tr ii shape0 s2)))"


section \<open>Evaluation (lines 343-438)\<close>

text \<open>Lines 373-404, the validation branch of the loop body. The grid takes the items 0
  and 1 of the first two items of the batch, which a batch of one item does not have.\<close>

definition validation_batch ::
  "settings \<Rightarrow> env \<Rightarrow> int \<Rightarrow> int \<Rightarrow> nat \<times> sample list \<Rightarrow> state \<Rightarrow> outcome" where
  "validation_batch P E epoch n_val x s =
     (let ii = int (fst x); shape0 = int (length (snd x));
          s1 = s\<lparr> running_loss_val := running_loss_val s + eval_loss E ''Validation'' epoch ii \<rparr>;
          s2 = s1\<lparr> total_iou := total_iou s1 + eval_iou E ''Validation'' epoch ii \<rparr>
      in if n_val = 0 then raise ZeroDivisionError s2
         else if ii mod n_val = n_val - 1 then
           (if ii * trainBatchSize P + shape0 = 0 then raise ZeroDivisionError s2
            else
              (let miou = total_iou s2 / of_int (ii * trainBatchSize P + shape0);
                   s3 = s2\<lparr> running_loss_val := running_loss_val s2 / of_int n_val \<rparr>;
                   s4 = emit (print_numImages ''Validation'' epoch
                                (ii * trainBatchSize P + shape0)) s3;
                   s5 = emit (add_scalar ''data/val_loss_epoch'' (running_loss_val s4)
                                (global_step s4)) s4;
                   s6 = emit (add_scalar ''data/val_miour'' miou (global_step s5)) s5;
                   s7 = s6\<lparr> running_loss_val := 0 \<rparr>
               in if shape0 < 2 then raise IndexError s7
                  else Inr (emit (add_image ''Validation'' 6 (global_step s7))
                              (s7\<lparr> images_list := 6 \<rparr>))))
         else Inr s2)"

text \<open>Lines 407-438, the test branch of the loop body; \<^verbatim>\<open>save_test_img\<close> reads item 0 of
  the batch.\<close>

definition test_batch ::
  "settings \<Rightarrow> env \<Rightarrow> int \<Rightarrow> int \<Rightarrow> nat \<times> sample list \<Rightarrow> state \<Rightarrow> outcome" where
  "test_batch P E epoch n_ts x s =
     (let ii = int (fst x); shape0 = int (length (snd x));
          s1 = s\<lparr> running_loss_ts := running_loss_ts s + eval_loss E ''Test'' epoch ii \<rparr>;
          s2 = s1\<lparr> total_iou := total_iou s1 + eval_iou E ''Test'' epoch ii \<rparr>
      in if shape0 < 1 then raise IndexError s2
         else
           (let s3 = emit (test_img_saved ii) s2
            in if n_ts = 0 then raise ZeroDivisionError s3
               else if ii mod n_ts = n_ts - 1 then
                 (if ii * trainBatchSize P + shape0 = 0 then raise ZeroDivisionError s3
                  else
                    (let miou = total_iou s3 / of_int (ii * trainBatchSize P + shape0);
                         s4 = s3\<lparr> running_loss_ts := running_loss_ts s3 / of_int n_ts \<rparr>;
                         s5 = emit (print_numImages ''Test'' epoch
                                      (ii * testBatchSize P + shape0)) s4;
                         s6 = emit (add_scalar ''data/test_loss_epoch'' (running_loss_ts s5)
                                      (global_step s5)) s5;
                         s7 = emit (add_scalar ''data/test_miour'' miou (global_step s6)) s6;
                         s8 = s7\<lparr> running_loss_ts := 0, images_list := images_list s7 + 3 \<rparr>
                     in Inr (emit (add_image ''Test'' (images_list s8) (global_step s8)) s8)))
               else Inr s3))"

text \<open>Lines 343-438: both passes, validation first, each starting with \<^verbatim>\<open>total_iou = 0.0\<close>.
  The remainder in line 343 is evaluated only when \<^verbatim>\<open>useTest\<close> holds.\<close>

definition validation_pass :: "settings \<Rightarrow> env \<Rightarrow> loaders \<Rightarrow> int \<Rightarrow> state \<Rightarrow> outcome" where
  "validation_pass P E L epoch s =
     for_each (validation_batch P E epoch (num_img_val L))
       (List.enumerate 0 (batches_of E epoch (validationloader L)))
       (s\<lparr> total_iou := 0 \<rparr>)"

definition test_pass :: "settings \<Rightarrow> env \<Rightarrow> loaders \<Rightarrow> int \<Rightarrow> state \<Rightarrow> outcome" where
  "test_pass P E L epoch s =
     for_each (test_batch P E epoch (num_img_ts L))
       (List.enumerate 0 (batches_of E epoch (testloader L)))
       (s\<lparr> total_iou := 0 \<rparr>)"

definition evaluate :: "settings \<Rightarrow> env \<Rightarrow> loaders \<Rightarrow> int \<Rightarrow> state \<Rightarrow> outcome" where
  "evaluate P E L epoch s =
     (if \<not> useTest P then Inr s
      else if nTestInterval P = 0 then raise ZeroDivisionError s
      else if epoch mod nTestInterval P = nTestInterval P - 1 then
        and_then (validation_pass P E L epoch ((emit net_eval s)\<lparr> images_list := 0 \<rparr>))
          (test_pass P E L epoch)
      else Inr s)"


section \<open>The main loop (lines 261-441)\<close>

text \<open>Lines 338-340.\<close>

definition save_model :: "settings \<Rightarrow> int \<Rightarrow> state \<Rightarrow> outcome" where
  "save_model P epoch s =
     (if snapshot P = 0 then raise ZeroDivisionError s
      else if epoch mod snapshot P = snapshot P - 1 then Inr (emit (model_saved epoch) s)
      else Inr s)"

definition train_epoch :: "settings \<Rightarrow> env \<Rightarrow> loaders \<Rightarrow> int \<Rightarrow> state \<Rightarrow> outcome" where
  "train_epoch P E L epoch s =
     for_each (train_batch P E epoch (num_img_tr L))
       (List.enumerate 0 (batches_of E epoch (trainloader L))) s"

definition epoch_body :: "settings \<Rightarrow> env \<Rightarrow> loaders \<Rightarrow> int \<Rightarrow> state \<Rightarrow> outcome" where
  "epoch_body P E L epoch s =
     and_then (adjust_lr P epoch s) (\<lambda>s1.
     and_then (train_epoch P E L epoch (emit net_train s1)) (\<lambda>s2.
     and_then (save_model P epoch s2) (\<lambda>s3.
     evaluate P E L epoch s3)))"

text \<open>The whole script from the network definition on. Lines 166-173: a run that resumes
  loads the model saved for the epoch before, which fails when there is no such file. When
  \<^verbatim>\<open>resume_epoch\<close> equals \<^verbatim>\<open>nEpochs\<close> the assembly block is skipped, the loop is empty, and
  \<^verbatim>\<open>writer.close()\<close> reads a variable that was never assigned.\<close>

definition main :: "settings \<Rightarrow> config \<Rightarrow> env \<Rightarrow> outcome" where
  "main P C E =
     (case network_definition P of
        Inl e \<Rightarrow> Inl (e, [])
      | Inr nw \<Rightarrow>
          (if resume_epoch P \<noteq> 0 \<and> \<not> has_checkpoint E (resume_epoch P - 1) then
             Inl (FileNotFoundError, [])
           else if resume_epoch P \<noteq> nEpochs P then
             and_then (assemble P C E) (\<lambda>L.
             and_then (for_each (epoch_body P E L) [resume_epoch P..nEpochs P - 1]
                         (init_state nw (assembled L))) (\<lambda>s.
             Inr (emit writer_close s)))
           else Inl (NameError, [])))"


section \<open>Observations of a run\<close>

text \<open>The events of the gradient accumulation, and the number of batches a trace has
  backpropagated.\<close>

fun training_event :: "event \<Rightarrow> bool" where
  "training_event loss_backward = True"
| "training_event optimizer_step = True"
| "training_event optimizer_zero_grad = True"
| "training_event e = False"

definition processed :: "event list \<Rightarrow> nat" where
  "processed evs = length (filter (\<lambda>e. e = loss_backward) evs)"

definition steps_taken :: "event list \<Rightarrow> nat" where
  "steps_taken evs = length (filter (\<lambda>e. e = optimizer_step) evs)"

text \<open>What the spec asks of an accumulation window \<open>W\<close> over \<open>n\<close> processed batches: every
  batch is backpropagated, and after every \<open>W\<close>-th one, and only then, the optimizer steps
  and the gradients are zeroed.\<close>

fun accumulation_schedule :: "nat \<Rightarrow> nat \<Rightarrow> event list" where
  "accumulation_schedule W 0 = []"
| "accumulation_schedule W (Suc n) =
     accumulation_schedule W n
     @ (if Suc n mod W = 0 then [loss_backward, optimizer_step, optimizer_zero_grad]
        else [loss_backward])"

text \<open>Every optimizer step of a trace is immediately followed by the zeroing of the
  gradients.\<close>

fun steps_zeroed :: "event list \<Rightarrow> bool" where
  "steps_zeroed [] = True"
| "steps_zeroed (optimizer_step # evs) =
     (case evs of [] \<Rightarrow> False | e # es \<Rightarrow> e = optimizer_zero_grad \<and> steps_zeroed evs)"
| "steps_zeroed (e # evs) = steps_zeroed evs"

text \<open>The events that open an epoch: a rebuilt optimizer, and the switch to training mode.\<close>

fun epoch_start_event :: "event \<Rightarrow> bool" where
  "epoch_start_event (SGD_built r) = True"
| "epoch_start_event net_train = True"
| "epoch_start_event e = False"

definition epochs_started :: "event list \<Rightarrow> nat" where
  "epochs_started evs = length (filter (\<lambda>e. e = net_train) evs)"

text \<open>The events with which the script opens epoch \<open>e\<close>, lines 265-273: a rebuilt optimizer
  when the polynomial policy is due, then the switch to training mode.\<close>

definition epoch_opening :: "settings \<Rightarrow> int \<Rightarrow> event list" where
  "epoch_opening P e =
     (if e mod epoch_size P = epoch_size P - 1
      then [SGD_built (lr P * (1 - of_int e / of_int (nEpochs P)) powr (9 / 10))] else [])
     @ [net_train]"


section \<open>Invariants of the loop\<close>

text \<open>A trace follows the accumulation schedule; a state \<open>accumulating\<close> has processed \<open>n\<close>
  batches on schedule and counts in \<open>aveGrad\<close> the batches since the last step.\<close>

definition scheduled :: "settings \<Rightarrow> event list \<Rightarrow> bool" where
  "scheduled P tr =
     (filter training_event tr = accumulation_schedule (nat (nAveGrad P)) (processed tr)
      \<and> steps_zeroed tr)"

definition accumulating :: "settings \<Rightarrow> nat \<Rightarrow> state \<Rightarrow> bool" where
  "accumulating P n s =
     (processed (trace s) = n \<and> scheduled P (trace s)
      \<and> aveGrad s = int (n mod nat (nAveGrad P)))"

definition accumulating_outcome :: "settings \<Rightarrow> nat \<Rightarrow> outcome \<Rightarrow> bool" where
  "accumulating_outcome P n r =
     (case r of Inl x \<Rightarrow> scheduled P (snd x) | Inr s \<Rightarrow> accumulating P n s)"

text \<open>A stage is idle when it adds no event of the accumulation and leaves the counter as it
  is; it is steady when it adds no event of an epoch start and changes of the optimizer
  only the number of steps taken, by the steps it adds to the trace.\<close>

definition idle :: "state \<Rightarrow> outcome \<Rightarrow> bool" where
  "idle s r =
     ((\<exists>evs. events_of r = trace s @ evs \<and> filter training_event evs = [])
      \<and> (\<forall>s'. r = Inr s' \<longrightarrow> aveGrad s' = aveGrad s))"

definition steady :: "state \<Rightarrow> outcome \<Rightarrow> bool" where
  "steady s r =
     (\<exists>evs. events_of r = trace s @ evs \<and> filter epoch_start_event evs = []
         \<and> (\<forall>s'. r = Inr s' \<longrightarrow>
                optimizer s' = (optimizer s)\<lparr> opt_steps :=
                                 opt_steps (optimizer s) + steps_taken evs \<rparr>))"

section \<open>Example inputs\<close>

text \<open>A configuration with one training source, two synthetic and two real evaluation
  sources, and an environment giving each source its number of samples.\<close>

definition example_config :: config where
  "example_config =
     \<lparr> batchSize = 2,
       train_datasets = [\<lparr> images = ''train/images'', labels = ''train/labels'' \<rparr>],
       percentageDataForTraining = PyFloat 1 (- 1),
       datasetsSynthetic = [\<lparr> images = ''syn_a/images'', labels = ''syn_a/labels'' \<rparr>,
                            \<lparr> images = ''syn_b/images'', labels = ''syn_b/labels'' \<rparr>],
       datasetsReal = [\<lparr> images = ''real_a/images'', labels = '''' \<rparr>,
                       \<lparr> images = ''real_b/images'', labels = '''' \<rparr>] \<rparr>"

definition example_len :: "AlphaPilotSegmentation \<Rightarrow> nat" where
  "example_len db =
     (if input_dir db = ''train/images'' then 10
      else if input_dir db = ''long/images'' then 38
      else if input_dir db = ''syn_b/images'' then 5
      else if input_dir db = ''real_b/images'' then 4 else 3)"

definition example_key :: "int \<Rightarrow> nat \<Rightarrow> nat" where
  "example_key epoch i = (7 * i + nat epoch) mod 5"

definition example_value :: "int \<Rightarrow> int \<Rightarrow> real" where
  "example_value epoch ii = 1"

definition example_eval :: "string \<Rightarrow> int \<Rightarrow> int \<Rightarrow> real" where
  "example_eval tag epoch ii = 3"

definition example_env :: env where
  "example_env =
     \<lparr> len_db = example_len, rand_key = example_key, train_loss = example_value,
       eval_loss = example_eval, eval_iou = example_eval, has_checkpoint = (\<lambda>epoch. False) \<rparr>"

text \<open>The same with a single real evaluation source of three samples, so that a test pass
  has one batch.\<close>

definition single_batch_config :: config where
  "single_batch_config =
     example_config\<lparr> datasetsReal := [\<lparr> images = ''real_a/images'', labels = '''' \<rparr>] \<rparr>"

text \<open>A single training source of 38 samples, all of them used: 19 training batches.\<close>

definition nineteen_batches_config :: config where
  "nineteen_batches_config =
     example_config\<lparr> train_datasets := [\<lparr> images = ''long/images'', labels = ''long/labels'' \<rparr>],
                      percentageDataForTraining := PyFloat 1 0 \<rparr>"

text \<open>An environment whose evaluation loss and IoU differ from batch to batch and between
  the two passes, and the state in which the script enters the evaluation of epoch 0: after
  the training pass of that epoch.\<close>

definition graded_loss :: "string \<Rightarrow> int \<Rightarrow> int \<Rightarrow> real" where
  "graded_loss tag epoch ii = of_int ii + 1"

definition graded_iou :: "string \<Rightarrow> int \<Rightarrow> int \<Rightarrow> real" where
  "graded_iou tag epoch ii = (if tag = ''Validation'' then of_int ii + 2 else of_int ii + 3)"

definition graded_env :: env where
  "graded_env = example_env\<lparr> eval_loss := graded_loss, eval_iou := graded_iou \<rparr>"

definition trained_once :: state where
  "trained_once =
     projr (train_epoch (script_settings example_config) graded_env
              (projr (assemble (script_settings example_config) example_config graded_env)) 0
              (emit net_train
                 (init_state (projr (network_definition (script_settings example_config))) [])))"


section \<open>Sequencing and loops\<close>

lemma and_then_Inr [simp]: "and_then (Inr a) f = f a"
  by (simp add: and_then_def)

lemma and_then_Inl [simp]: "and_then (Inl e) f = Inl e"
  by (simp add: and_then_def)

lemma and_then_eq_Inr: "and_then r f = Inr b \<longleftrightarrow> (\<exists>a. r = Inr a \<and> f a = Inr b)"
  by (cases r) simp_all

lemma for_each_append:
  "for_each f (xs @ ys) s = and_then (for_each f xs s) (for_each f ys)"
  by (induction xs arbitrary: s) (simp_all split: sum.splits)

lemma for_each_single [simp]: "for_each f [x] s = f x s"
  by (cases "f x s") simp_all


section \<open>The network definition fails fast\<close>

lemma network_definition_unsupported:
  assumes "Model P \<noteq> ''deeplab'' \<and> Model P \<noteq> ''unet''
           \<or> Model P = ''deeplab'' \<and> backbone P \<noteq> ''xception'' \<and> backbone P \<noteq> ''resnet''"
  shows "network_definition P = Inl NotImplementedError"
  using assms by (auto simp: network_definition_def)

text \<open>
  Claim C8. For every model-family selector other than the two supported families, and for
  the deeplab family every backbone selector other than the two supported backbones, the
  network definition raises NotImplementedError, and the script stops there: no event has
  been performed, so no data source and no loader has been built and no batch loaded.
\<close>

theorem unsupported_selector_fails_before_assembly:
  assumes "Model P \<noteq> ''deeplab'' \<and> Model P \<noteq> ''unet''
           \<or> Model P = ''deeplab'' \<and> backbone P \<noteq> ''xception'' \<and> backbone P \<noteq> ''resnet''"
  shows "network_definition P = Inl NotImplementedError
         \<and> main P C E = Inl (NotImplementedError, [])"
  using network_definition_unsupported [OF assms] by (simp add: main_def)

theorem unsupported_selector_fails_before_assembly_witness:
  "network_definition ((script_settings example_config)\<lparr> Model := ''segnet'' \<rparr>)
     = Inl NotImplementedError
   \<and> main ((script_settings example_config)\<lparr> Model := ''segnet'' \<rparr>) example_config
       example_env = Inl (NotImplementedError, [])
   \<and> main ((script_settings example_config)\<lparr> backbone := ''mobilenet'' \<rparr>) example_config
       example_env = Inl (NotImplementedError, [])"
  using unsupported_selector_fails_before_assembly
          [of "(script_settings example_config)\<lparr> Model := ''segnet'' \<rparr>"
              example_config example_env]
        unsupported_selector_fails_before_assembly
          [of "(script_settings example_config)\<lparr> backbone := ''mobilenet'' \<rparr>"
              example_config example_env]
  by (simp add: script_settings_def)


section \<open>What the assembly builds\<close>

lemma for_each_add_validation:
  "for_each (add_validation P) ds A =
     Inr (A\<lparr> db_validation := (if ds = [] then db_validation A
                                 else Some (validation_source P (last ds))),
             built := built A @ map (\<lambda>d. dataset_built (validation_source P d)) ds \<rparr>)"
  by (induction ds arbitrary: A) (simp_all add: add_validation_def Let_def)

lemma for_each_add_test:
  "for_each (add_test P) ds A =
     Inr (A\<lparr> db_test := (if ds = [] then db_test A else Some (test_source P (last ds))),
             db_test_list := db_test_list A @ map (test_source P) ds,
             built := built A @ map (\<lambda>d. dataset_built (test_source P d)) ds \<rparr>)"
  by (induction ds arbitrary: A) (simp_all add: add_test_def Let_def)

lemma for_each_add_train_Inr:
  "for_each (add_train P C E) ds A = Inr A' \<Longrightarrow>
     (\<exists>sizes. length sizes = length ds
        \<and> (\<forall>i < length ds. int_of_times (percentageDataForTraining C)
               (int (len_db E (train_source P (ds ! i)))) = Inr (sizes ! i))
        \<and> A' = A\<lparr> db_train_list := db_train_list A
                      @ map (\<lambda>(d, n). Subset (train_source P d) n) (zip ds sizes),
                   built := built A @ map (\<lambda>d. dataset_built (train_source P d)) ds \<rparr>)"
proof (induction ds arbitrary: A)
  case Nil
  then show ?case by simp
next
  case (Cons d ds)
  from Cons.prems obtain A1 where a1: "add_train P C E d A = Inr A1"
    and rest: "for_each (add_train P C E) ds A1 = Inr A'"
    by (auto split: sum.splits)
  from a1 obtain n where n: "int_of_times (percentageDataForTraining C)
      (int (len_db E (train_source P d))) = Inr n"
    and A1: "A1 = A\<lparr> db_train_list := db_train_list A @ [Subset (train_source P d) n],
                     built := built A @ [dataset_built (train_source P d)] \<rparr>"
    by (auto simp: add_train_def Let_def split: sum.splits)
  from Cons.IH [OF rest] obtain sizes where sz: "length sizes = length ds"
    and each: "\<forall>i < length ds. int_of_times (percentageDataForTraining C)
               (int (len_db E (train_source P (ds ! i)))) = Inr (sizes ! i)"
    and A': "A' = A1\<lparr> db_train_list := db_train_list A1
                      @ map (\<lambda>(d, n). Subset (train_source P d) n) (zip ds sizes),
                   built := built A1 @ map (\<lambda>d. dataset_built (train_source P d)) ds \<rparr>"
    by blast
  show ?case
  proof (intro exI [of _ "n # sizes"] conjI)
    show "length (n # sizes) = length (d # ds)" using sz by simp
    show "\<forall>i < length (d # ds). int_of_times (percentageDataForTraining C)
               (int (len_db E (train_source P ((d # ds) ! i)))) = Inr ((n # sizes) ! i)"
      using n each by (auto simp: nth_Cons split: nat.splits)
    show "A' = A\<lparr> db_train_list := db_train_list A
                      @ map (\<lambda>(d, n). Subset (train_source P d) n) (zip (d # ds) (n # sizes)),
                   built := built A @ map (\<lambda>d. dataset_built (train_source P d)) (d # ds) \<rparr>"
      using A' A1 by simp
  qed
qed

lemma new_DataLoader_Inr:
  "new_DataLoader ds B sh nw dl = Inr L \<longleftrightarrow>
     0 < B \<and> \<not> (sh \<and> ds = [])
     \<and> L = \<lparr> dl_dataset = ds, dl_batch_size = B, dl_shuffle = sh,
             dl_num_workers = nw, dl_drop_last = dl \<rparr>"
  by (auto simp: new_DataLoader_def)

lemma build_loaders_Inr:
  assumes "build_loaders P E db_train A = Inr L"
  shows "\<exists>dbv dbt. db_validation A = Some dbv \<and> db_test A = Some dbt
           \<and> db_train \<noteq> [] \<and> 0 < trainBatchSize P
           \<and> trainloader L = \<lparr> dl_dataset = db_train,
                 dl_batch_size = trainBatchSize P, dl_shuffle = True,
                 dl_num_workers = 4, dl_drop_last = True \<rparr>
           \<and> validationloader L = \<lparr> dl_dataset = items E dbv,
                 dl_batch_size = trainBatchSize P, dl_shuffle = False,
                 dl_num_workers = 4, dl_drop_last = True \<rparr>
           \<and> testloader L = \<lparr> dl_dataset = items E dbt,
                 dl_batch_size = trainBatchSize P, dl_shuffle = False,
                 dl_num_workers = 4, dl_drop_last = True \<rparr>
           \<and> assembled L = built A @ [loader_built (trainloader L),
                 loader_built (validationloader L), loader_built (testloader L)]"
  using assms
  by (auto simp: build_loaders_def Let_def new_DataLoader_Inr
           split: if_splits option.splits sum.splits)

lemma assemble_Inr:
  assumes "assemble P C E = Inr L"
  shows "\<exists>sizes. length sizes = length (train_datasets C)
     \<and> (\<forall>i < length (train_datasets C). int_of_times (percentageDataForTraining C)
            (int (len_db E (train_source P (train_datasets C ! i)))) = Inr (sizes ! i))
     \<and> train_datasets C \<noteq> [] \<and> datasetsSynthetic C \<noteq> [] \<and> datasetsReal C \<noteq> []
     \<and> 0 < trainBatchSize P
     \<and> trainloader L = \<lparr> dl_dataset =
             concat (map (\<lambda>(d, n). Subset (train_source P d) n) (zip (train_datasets C) sizes)),
           dl_batch_size = trainBatchSize P, dl_shuffle = True,
           dl_num_workers = 4, dl_drop_last = True \<rparr>
     \<and> validationloader L = \<lparr> dl_dataset =
             items E (validation_source P (last (datasetsSynthetic C))),
           dl_batch_size = trainBatchSize P, dl_shuffle = False,
           dl_num_workers = 4, dl_drop_last = True \<rparr>
     \<and> testloader L = \<lparr> dl_dataset = items E (test_source P (last (datasetsReal C))),
           dl_batch_size = trainBatchSize P, dl_shuffle = False,
           dl_num_workers = 4, dl_drop_last = True \<rparr>
     \<and> assembled L =
           map (\<lambda>d. dataset_built (train_source P d)) (train_datasets C)
           @ map (\<lambda>d. dataset_built (validation_source P d)) (datasetsSynthetic C)
           @ map (\<lambda>d. dataset_built (test_source P d)) (datasetsReal C)
           @ [loader_built (trainloader L), loader_built (validationloader L),
              loader_built (testloader L)]"
proof -
  from assms obtain A1 db_train A2 A3 where
    a1: "for_each (add_train P C E) (train_datasets C) assembly0 = Inr A1"
    and cc: "ConcatDataset A1 = Inr db_train"
    and a2: "for_each (add_validation P) (datasetsSynthetic C) A1 = Inr A2"
    and a3: "for_each (add_test P) (datasetsReal C) A2 = Inr A3"
    and rest: "build_loaders P E db_train A3 = Inr L"
    unfolding assemble_def and_then_eq_Inr by blast
  from for_each_add_train_Inr [OF a1] obtain sizes where
    sz: "length sizes = length (train_datasets C)"
    and each: "\<forall>i < length (train_datasets C). int_of_times (percentageDataForTraining C)
            (int (len_db E (train_source P (train_datasets C ! i)))) = Inr (sizes ! i)"
    and A1: "A1 = assembly0\<lparr> db_train_list := db_train_list assembly0
                      @ map (\<lambda>(d, n). Subset (train_source P d) n) (zip (train_datasets C) sizes),
                   built := built assembly0
                      @ map (\<lambda>d. dataset_built (train_source P d)) (train_datasets C) \<rparr>"
    by blast
  have A2: "A2 = A1\<lparr> db_validation := (if datasetsSynthetic C = [] then db_validation A1
                        else Some (validation_source P (last (datasetsSynthetic C)))),
                     built := built A1
                        @ map (\<lambda>d. dataset_built (validation_source P d)) (datasetsSynthetic C) \<rparr>"
    using a2 by (simp add: for_each_add_validation)
  have A3: "A3 = A2\<lparr> db_test := (if datasetsReal C = [] then db_test A2
                        else Some (test_source P (last (datasetsReal C)))),
                     db_test_list := db_test_list A2 @ map (test_source P) (datasetsReal C),
                     built := built A2
                        @ map (\<lambda>d. dataset_built (test_source P d)) (datasetsReal C) \<rparr>"
    using a3 by (simp add: for_each_add_test)
  have tl: "db_train_list A3 =
      map (\<lambda>(d, n). Subset (train_source P d) n) (zip (train_datasets C) sizes)"
    by (simp add: A3 A2 A1 assembly0_def)
  have dv: "db_validation A3 = (if datasetsSynthetic C = [] then None
      else Some (validation_source P (last (datasetsSynthetic C))))"
    by (simp add: A3 A2 A1 assembly0_def)
  have dt: "db_test A3 = (if datasetsReal C = [] then None
      else Some (test_source P (last (datasetsReal C))))"
    by (simp add: A3 A2 A1 assembly0_def)
  have bl: "built A3 = map (\<lambda>d. dataset_built (train_source P d)) (train_datasets C)
           @ map (\<lambda>d. dataset_built (validation_source P d)) (datasetsSynthetic C)
           @ map (\<lambda>d. dataset_built (test_source P d)) (datasetsReal C)"
    by (simp add: A3 A2 A1 assembly0_def)
  from build_loaders_Inr [OF rest] obtain dbv dbt where
    v: "db_validation A3 = Some dbv" and t: "db_test A3 = Some dbt"
    and B: "0 < trainBatchSize P"
    and trl0: "trainloader L = \<lparr> dl_dataset = db_train,
                 dl_batch_size = trainBatchSize P, dl_shuffle = True,
                 dl_num_workers = 4, dl_drop_last = True \<rparr>"
    and vll: "validationloader L = \<lparr> dl_dataset = items E dbv,
                 dl_batch_size = trainBatchSize P, dl_shuffle = False,
                 dl_num_workers = 4, dl_drop_last = True \<rparr>"
    and tsl: "testloader L = \<lparr> dl_dataset = items E dbt,
                 dl_batch_size = trainBatchSize P, dl_shuffle = False,
                 dl_num_workers = 4, dl_drop_last = True \<rparr>"
    and asm: "assembled L = built A3 @ [loader_built (trainloader L),
                 loader_built (validationloader L), loader_built (testloader L)]"
    by blast
  have ne: "db_train_list A3 \<noteq> []" and db_train: "db_train = concat (db_train_list A3)"
    using cc by (auto simp: ConcatDataset_def A3 A2 split: if_splits)
  have trl: "trainloader L = \<lparr> dl_dataset = concat (db_train_list A3),
                 dl_batch_size = trainBatchSize P, dl_shuffle = True,
                 dl_num_workers = 4, dl_drop_last = True \<rparr>"
    using trl0 db_train by simp
  have nes: "datasetsSynthetic C \<noteq> []" using v dv by (auto split: if_splits)
  have ner: "datasetsReal C \<noteq> []" using t dt by (auto split: if_splits)
  have net: "train_datasets C \<noteq> []" using ne tl sz by auto
  have dbv: "dbv = validation_source P (last (datasetsSynthetic C))"
    using v dv nes by simp
  have dbt: "dbt = test_source P (last (datasetsReal C))"
    using t dt ner by simp
  show ?thesis
  proof (intro exI [of _ sizes] conjI)
    show "assembled L =
           map (\<lambda>d. dataset_built (train_source P d)) (train_datasets C)
           @ map (\<lambda>d. dataset_built (validation_source P d)) (datasetsSynthetic C)
           @ map (\<lambda>d. dataset_built (test_source P d)) (datasetsReal C)
           @ [loader_built (trainloader L), loader_built (validationloader L),
              loader_built (testloader L)]"
      using asm bl by simp
  qed (use sz each net nes ner B trl vll tsl tl dbv dbt in simp_all)
qed

lemma assemble_train_nonempty:
  assumes "assemble P C E = Inr L"
  shows "dl_dataset (trainloader L) \<noteq> []"
proof -
  from assms obtain db_train A3 where "build_loaders P E db_train A3 = Inr L"
    unfolding assemble_def and_then_eq_Inr by blast
  from build_loaders_Inr [OF this] show ?thesis by auto
qed


section \<open>Batches\<close>

lemma batch_sampler_length:
  "0 < B \<Longrightarrow> length (batch_sampler B True xs) = length xs div B"
proof (induction B "True" xs rule: batch_sampler.induct)
  case (1 B xs)
  show ?case
  proof (cases "xs = [] \<or> length xs < B")
    case True
    then show ?thesis using "1.prems" by (auto simp: batch_sampler.simps [of B True xs])
  next
    case False
    then have ge: "B \<le> length xs" and ne: "xs \<noteq> []" by auto
    have "length (batch_sampler B True xs) = Suc (length (batch_sampler B True (drop B xs)))"
      using False "1.prems" by (simp add: batch_sampler.simps [of B True xs])
    also have "\<dots> = Suc ((length xs - B) div B)"
      using "1.hyps" False "1.prems" by simp
    also have "\<dots> = length xs div B"
      using ge "1.prems" by (simp add: le_div_geq)
    finally show ?thesis .
  qed
qed

lemma batch_sampler_full:
  "b \<in> set (batch_sampler B True xs) \<Longrightarrow> length b = B"
proof (induction B "True" xs rule: batch_sampler.induct)
  case (1 B xs)
  show ?case
  proof (cases "B = 0 \<or> xs = [] \<or> length xs < B")
    case True
    then show ?thesis using "1.prems"
      by (auto simp: batch_sampler.simps [of B True xs] split: if_splits)
  next
    case False
    then have "b = take B xs \<or> b \<in> set (batch_sampler B True (drop B xs))"
      using "1.prems" by (simp add: batch_sampler.simps [of B True xs])
    then show ?thesis using "1.hyps" False by auto
  qed
qed

lemma concat_batch_sampler:
  "concat (batch_sampler B True xs) = take (B * (length xs div B)) xs"
proof (induction B "True" xs rule: batch_sampler.induct)
  case (1 B xs)
  show ?case
  proof (cases "B = 0 \<or> xs = [] \<or> length xs < B")
    case True
    then show ?thesis by (auto simp: batch_sampler.simps [of B True xs])
  next
    case False
    then have ge: "B \<le> length xs" and pos: "0 < B" by auto
    have d: "length xs div B = Suc ((length xs - B) div B)"
      using ge pos by (simp add: le_div_geq)
    have "concat (batch_sampler B True xs)
            = take B xs @ take (B * ((length xs - B) div B)) (drop B xs)"
      using False "1.hyps" by (simp add: batch_sampler.simps [of B True xs])
    also have "\<dots> = take (B + B * ((length xs - B) div B)) xs"
      by (simp add: take_add)
    also have "\<dots> = take (B * (length xs div B)) xs"
      by (simp add: d)
    finally show ?thesis .
  qed
qed

lemma batch_sampler_subset:
  "b \<in> set (batch_sampler B True xs) \<Longrightarrow> set b \<subseteq> set xs"
proof -
  assume "b \<in> set (batch_sampler B True xs)"
  then have "set b \<subseteq> set (concat (batch_sampler B True xs))" by auto
  also have "\<dots> \<subseteq> set xs"
    unfolding concat_batch_sampler by (rule set_take_subset)
  finally show ?thesis .
qed

lemma length_sampled_order [simp]:
  "length (sampled_order E epoch L) = length (dl_dataset L)"
  by (simp add: sampled_order_def)

lemma set_sampled_order [simp]:
  "set (sampled_order E epoch L) = set (dl_dataset L)"
proof (cases "dl_shuffle L")
  case False
  then show ?thesis by (simp add: sampled_order_def)
next
  case True
  let ?ks = "map (rand_key E epoch) [0..<length (dl_dataset L)]"
  have len: "length ?ks = length (dl_dataset L)" by simp
  have "set (map snd (sort_key fst (zip ?ks (dl_dataset L))))
          = snd ` set (sort_key fst (zip ?ks (dl_dataset L)))"
    by (simp only: set_map)
  also have "\<dots> = snd ` set (zip ?ks (dl_dataset L))"
    by (simp only: set_sort)
  also have "\<dots> = set (map snd (zip ?ks (dl_dataset L)))"
    by (simp only: set_map)
  also have "\<dots> = set (dl_dataset L)"
    by (simp only: map_snd_zip [OF len])
  finally have "set (map snd (sort_key fst (zip ?ks (dl_dataset L)))) = set (dl_dataset L)" .
  then show ?thesis unfolding sampled_order_def using True by (simp only: if_True)
qed

lemma length_batches_of:
  assumes "0 < dl_batch_size L" and "dl_drop_last L"
  shows "int (length (batches_of E epoch L)) = int (length (dl_dataset L)) div dl_batch_size L"
    and "len_loader L = int (length (dl_dataset L)) div dl_batch_size L"
proof -
  have pos: "0 < nat (dl_batch_size L)" using assms by simp
  have "length (batches_of E epoch L) = length (dl_dataset L) div nat (dl_batch_size L)"
    using assms(2) batch_sampler_length [OF pos, of "sampled_order E epoch L"]
    by (simp add: batches_of_def)
  then show "int (length (batches_of E epoch L))
               = int (length (dl_dataset L)) div dl_batch_size L"
    using assms by (simp add: zdiv_int)
  show "len_loader L = int (length (dl_dataset L)) div dl_batch_size L"
    using assms by (simp add: len_loader_def)
qed


section \<open>The batches of the assembled loaders\<close>

lemma loader_batches:
  assumes "assemble P C E = Inr L"
    and "X \<in> {trainloader L, validationloader L, testloader L}"
  shows "0 < trainBatchSize P"
    and "len_loader X = int (length (batches_of E epoch X))"
    and "\<forall>b \<in> set (batches_of E epoch X). int (length b) = trainBatchSize P"
    and "int (length (batches_of E epoch X)) = int (length (dl_dataset X)) div trainBatchSize P"
proof -
  from assemble_Inr [OF assms(1)] assms(2) have
    pos: "0 < trainBatchSize P" and B: "dl_batch_size X = trainBatchSize P"
    and d: "dl_drop_last X"
    by auto
  have p: "0 < dl_batch_size X" using pos B by simp
  show "0 < trainBatchSize P" by (rule pos)
  show "len_loader X = int (length (batches_of E epoch X))"
    using length_batches_of(1) [OF p d, of E epoch] length_batches_of(2) [OF p d] by simp
  show "int (length (batches_of E epoch X)) = int (length (dl_dataset X)) div trainBatchSize P"
    using length_batches_of(1) [OF p d, of E epoch] B by simp
  show "\<forall>b \<in> set (batches_of E epoch X). int (length b) = trainBatchSize P"
  proof
    fix b assume "b \<in> set (batches_of E epoch X)"
    then show "int (length b) = trainBatchSize P"
      using d batch_sampler_full [of b "nat (dl_batch_size X)" "sampled_order E epoch X"] p B
      by (simp add: batches_of_def)
  qed
qed

lemma assemble_len_db:
  assumes "len_db E = len_db E'"
  shows "assemble P C E = assemble P C E'"
proof -
  have 1: "add_train P C E = add_train P C E'"
    by (intro ext) (simp add: add_train_def assms)
  have it: "items E = items E'"
    by (intro ext) (simp add: items_def assms)
  have 2: "build_loaders P E = build_loaders P E'"
    by (intro ext) (unfold build_loaders_def it, rule refl)
  show ?thesis by (simp add: assemble_def 1 2)
qed


section \<open>Evaluation sources: the last entry wins\<close>

lemma example_assemble:
  "assemble (script_settings example_config) example_config example_env
     = Inr (projr (assemble (script_settings example_config) example_config example_env))"
  by code_simp

text \<open>
  Claim C6. After a successful assembly the validation loader holds exactly the samples of
  the last entry of the "synthetic" evaluation list, and the test loader exactly those of
  the last entry of the "real" list; every batch either loader yields in any epoch is drawn
  from that last entry only.
\<close>

theorem last_eval_entry_wins:
  assumes "assemble P C E = Inr L"
  shows "dl_dataset (validationloader L)
           = items E (validation_source P (last (datasetsSynthetic C)))
       \<and> dl_dataset (testloader L) = items E (test_source P (last (datasetsReal C)))
       \<and> (\<forall>b \<in> set (batches_of E epoch (validationloader L)).
             set b \<subseteq> set (items E (validation_source P (last (datasetsSynthetic C)))))
       \<and> (\<forall>b \<in> set (batches_of E epoch (testloader L)).
             set b \<subseteq> set (items E (test_source P (last (datasetsReal C)))))"
proof -
  from assemble_Inr [OF assms] have
    v: "dl_dataset (validationloader L)
          = items E (validation_source P (last (datasetsSynthetic C)))"
    and t: "dl_dataset (testloader L) = items E (test_source P (last (datasetsReal C)))"
    and dv: "dl_drop_last (validationloader L)" and dt: "dl_drop_last (testloader L)"
    by auto
  have sub: "set b \<subseteq> set (dl_dataset X)"
    if "dl_drop_last X" and "b \<in> set (batches_of E epoch X)" for b X
    using that batch_sampler_subset [of b "nat (dl_batch_size X)" "sampled_order E epoch X"]
    by (simp add: batches_of_def)
  show ?thesis using v t sub [OF dv] sub [OF dt] by auto
qed

theorem last_eval_entry_wins_witness:
  "dl_dataset (validationloader
       (projr (assemble (script_settings example_config) example_config example_env)))
     = items example_env (validation_source (script_settings example_config)
         \<lparr> images = ''syn_b/images'', labels = ''syn_b/labels'' \<rparr>)
   \<and> dl_dataset (testloader
       (projr (assemble (script_settings example_config) example_config example_env)))
     = items example_env (test_source (script_settings example_config)
         \<lparr> images = ''real_b/images'', labels = '''' \<rparr>)"
  using last_eval_entry_wins [OF example_assemble, of 0]
  by (simp add: example_config_def)


section \<open>Augmentation pipelines of the evaluation sources\<close>

text \<open>
  Claim C10. After a successful assembly every sample of the validation loader comes from a
  source built with the training pipeline \<open>augs_train\<close>, which resizes with nearest-neighbour
  interpolation, not with the test pipeline \<open>augs_test\<close>, which resizes with cubic
  interpolation; the validation loader has the training batch size; every sample of the
  test loader comes from a source built with the test pipeline; and among all the data
  sources built, those with the test pipeline are exactly the sources of the "real"
  evaluation list.
\<close>

theorem validation_uses_training_pipeline:
  assumes "assemble P C E = Inr L"
  shows "(\<forall>x \<in> set (dl_dataset (validationloader L)). transform (fst x) = augs_train P)
       \<and> interpolations (augs_train P) = [''nearest'']
       \<and> interpolations (augs_test P) = [''cubic'']
       \<and> augs_train P \<noteq> augs_test P
       \<and> dl_batch_size (validationloader L) = trainBatchSize P
       \<and> (\<forall>x \<in> set (dl_dataset (testloader L)). transform (fst x) = augs_test P)
       \<and> (\<forall>db. dataset_built db \<in> set (assembled L) \<longrightarrow>
            (transform db = augs_test P \<longleftrightarrow> db \<in> test_source P ` set (datasetsReal C)))"
proof -
  from assemble_Inr [OF assms] have
    v: "validationloader L = \<lparr> dl_dataset =
             items E (validation_source P (last (datasetsSynthetic C))),
           dl_batch_size = trainBatchSize P, dl_shuffle = False,
           dl_num_workers = 4, dl_drop_last = True \<rparr>"
    and t: "testloader L = \<lparr> dl_dataset = items E (test_source P (last (datasetsReal C))),
           dl_batch_size = trainBatchSize P, dl_shuffle = False,
           dl_num_workers = 4, dl_drop_last = True \<rparr>"
    and a: "assembled L =
           map (\<lambda>d. dataset_built (train_source P d)) (train_datasets C)
           @ map (\<lambda>d. dataset_built (validation_source P d)) (datasetsSynthetic C)
           @ map (\<lambda>d. dataset_built (test_source P d)) (datasetsReal C)
           @ [loader_built (trainloader L), loader_built (validationloader L),
              loader_built (testloader L)]"
    by auto
  have ne: "augs_train P \<noteq> augs_test P"
    by (simp add: augs_train_def augs_test_def)
  have 1: "\<forall>x \<in> set (dl_dataset (validationloader L)). transform (fst x) = augs_train P"
    by (auto simp: v items_def validation_source_def)
  have 2: "interpolations (augs_train P) = [''nearest'']"
    by (simp add: interpolations_def augs_train_def interpolation_method_def)
  have 3: "interpolations (augs_test P) = [''cubic'']"
    by (simp add: interpolations_def augs_test_def interpolation_method_def)
  have 5: "dl_batch_size (validationloader L) = trainBatchSize P"
    by (simp add: v)
  have 6: "\<forall>x \<in> set (dl_dataset (testloader L)). transform (fst x) = augs_test P"
    by (auto simp: t items_def test_source_def)
  have 7: "transform db = augs_test P \<longleftrightarrow> db \<in> test_source P ` set (datasetsReal C)"
    if "dataset_built db \<in> set (assembled L)" for db
  proof -
    from that consider
      (tr) d where "db = train_source P d"
      | (va) d where "db = validation_source P d"
      | (te) d where "d \<in> set (datasetsReal C)" "db = test_source P d"
      unfolding a by auto
    then show ?thesis
    proof cases
      case tr
      then have "transform db = augs_train P" by (simp add: train_source_def)
      moreover have "db \<notin> test_source P ` set (datasetsReal C)"
        using tr ne by (auto simp: train_source_def test_source_def)
      ultimately show ?thesis using ne by simp
    next
      case va
      then have "transform db = augs_train P" by (simp add: validation_source_def)
      moreover have "db \<notin> test_source P ` set (datasetsReal C)"
        using va ne by (auto simp: validation_source_def test_source_def)
      ultimately show ?thesis using ne by simp
    next
      case te
      then show ?thesis by (auto simp: test_source_def)
    qed
  qed
  show ?thesis using 1 2 3 ne 5 6 7 by blast
qed

theorem validation_uses_training_pipeline_witness:
  "interpolations (augs_train (script_settings example_config)) = [''nearest'']
   \<and> interpolations (augs_test (script_settings example_config)) = [''cubic'']
   \<and> dl_batch_size (validationloader
       (projr (assemble (script_settings example_config) example_config example_env))) = 2"
  using validation_uses_training_pipeline [OF example_assemble]
  by (simp add: script_settings_def example_config_def)


section \<open>Dropping the trailing partial batch\<close>

lemma int_of_times_half_of_ten: "int_of_times (PyFloat 1 (- 1)) 10 = Inr 5"
  by code_simp

lemma length_Subset [simp]: "length (Subset db n) = nat n"
  by (simp add: Subset_def)

text \<open>
  Claim C7. After a successful assembly each of the three loaders has \<^verbatim>\<open>drop_last\<close> set and
  the training batch size \<open>B\<close>; a pass over its \<open>n\<close> samples yields exactly \<open>n div B\<close> batches,
  which is also what \<^verbatim>\<open>len(loader)\<close> returns, and every batch yielded is a full one. In
  particular, with batch size 2, a single training source of 10 samples and the training
  fraction 0.5 (the double with mantissa 1 and exponent -1), the training set has 5 samples
  and every epoch yields exactly 2 batches, holding 4 samples together.
\<close>

theorem loaders_drop_partial_batch:
  assumes "assemble P C E = Inr L"
    and "X \<in> {trainloader L, validationloader L, testloader L}"
  shows "dl_drop_last X
       \<and> dl_batch_size X = trainBatchSize P
       \<and> int (length (batches_of E epoch X))
           = int (length (dl_dataset X)) div trainBatchSize P
       \<and> len_loader X = int (length (dl_dataset X)) div trainBatchSize P
       \<and> (\<forall>b \<in> set (batches_of E epoch X). int (length b) = trainBatchSize P)
       \<and> (trainBatchSize P = 2 \<and> length (train_datasets C) = 1
            \<and> len_db E (train_source P (hd (train_datasets C))) = 10
            \<and> percentageDataForTraining C = PyFloat 1 (- 1)
          \<longrightarrow> length (dl_dataset (trainloader L)) = 5
              \<and> length (batches_of E epoch (trainloader L)) = 2
              \<and> length (concat (batches_of E epoch (trainloader L))) = 4)"
proof -
  from assemble_Inr [OF assms(1)] obtain sizes where
    sz: "length sizes = length (train_datasets C)"
    and each: "\<forall>i < length (train_datasets C). int_of_times (percentageDataForTraining C)
            (int (len_db E (train_source P (train_datasets C ! i)))) = Inr (sizes ! i)"
    and pos: "0 < trainBatchSize P"
    and tr: "trainloader L = \<lparr> dl_dataset =
             concat (map (\<lambda>(d, n). Subset (train_source P d) n) (zip (train_datasets C) sizes)),
           dl_batch_size = trainBatchSize P, dl_shuffle = True,
           dl_num_workers = 4, dl_drop_last = True \<rparr>"
    and va: "validationloader L = \<lparr> dl_dataset =
             items E (validation_source P (last (datasetsSynthetic C))),
           dl_batch_size = trainBatchSize P, dl_shuffle = False,
           dl_num_workers = 4, dl_drop_last = True \<rparr>"
    and te: "testloader L = \<lparr> dl_dataset = items E (test_source P (last (datasetsReal C))),
           dl_batch_size = trainBatchSize P, dl_shuffle = False,
           dl_num_workers = 4, dl_drop_last = True \<rparr>"
    by blast
  have general: "dl_drop_last Y \<and> dl_batch_size Y = trainBatchSize P
       \<and> int (length (batches_of E epoch Y))
           = int (length (dl_dataset Y)) div trainBatchSize P
       \<and> len_loader Y = int (length (dl_dataset Y)) div trainBatchSize P
       \<and> (\<forall>b \<in> set (batches_of E epoch Y). int (length b) = trainBatchSize P)"
    if Y: "Y \<in> {trainloader L, validationloader L, testloader L}" for Y
  proof -
    from Y tr va te have d: "dl_drop_last Y" and b: "dl_batch_size Y = trainBatchSize P"
      by auto
    have p: "0 < dl_batch_size Y" using pos b by simp
    have full: "int (length c) = trainBatchSize P" if "c \<in> set (batches_of E epoch Y)" for c
      using that d batch_sampler_full [of c "nat (dl_batch_size Y)" "sampled_order E epoch Y"]
        p b by (simp add: batches_of_def)
    show ?thesis
      using d b length_batches_of(1) [OF p d, of E epoch] length_batches_of(2) [OF p d] full
      by simp
  qed
  have scenario: "length (dl_dataset (trainloader L)) = 5
              \<and> length (batches_of E epoch (trainloader L)) = 2
              \<and> length (concat (batches_of E epoch (trainloader L))) = 4"
    if B: "trainBatchSize P = 2" and one: "length (train_datasets C) = 1"
      and ten: "len_db E (train_source P (hd (train_datasets C))) = 10"
      and half: "percentageDataForTraining C = PyFloat 1 (- 1)"
  proof -
    from one obtain d where d: "train_datasets C = [d]"
      by (cases "train_datasets C") auto
    from sz d obtain n where n: "sizes = [n]"
      by (cases sizes) auto
    from each d n ten half have "int_of_times (PyFloat 1 (- 1)) 10 = Inr n" by simp
    then have n5: "n = 5" by (simp add: int_of_times_half_of_ten)
    have len: "length (dl_dataset (trainloader L)) = 5"
      by (simp add: tr d n n5)
    from general [of "trainloader L"] B len
    have nb: "length (batches_of E epoch (trainloader L)) = 2" by simp
    have "concat (batches_of E epoch (trainloader L))
            = take (2 * (5 div 2)) (sampled_order E epoch (trainloader L))"
      using concat_batch_sampler [of 2 "sampled_order E epoch (trainloader L)"] len B
      by (simp add: batches_of_def tr)
    then have "length (concat (batches_of E epoch (trainloader L))) = 4"
      using len by simp
    with len nb show ?thesis by simp
  qed
  show ?thesis using general [OF assms(2)] scenario by blast
qed

theorem loaders_drop_partial_batch_witness:
  "length (dl_dataset (trainloader
       (projr (assemble (script_settings example_config) example_config example_env)))) = 5
   \<and> length (batches_of example_env 3 (trainloader
       (projr (assemble (script_settings example_config) example_config example_env)))) = 2
   \<and> length (concat (batches_of example_env 3 (trainloader
       (projr (assemble (script_settings example_config) example_config example_env))))) = 4"
  using loaders_drop_partial_batch [OF example_assemble,
          of "trainloader
                (projr (assemble (script_settings example_config) example_config example_env))" 3]
  by (simp add: script_settings_def example_config_def example_env_def example_len_def
        train_source_def)


section \<open>The report of an evaluation pass\<close>

lemma test_batch_report:
  assumes "b \<noteq> []" and "num \<noteq> 0" and "int i mod num = num - 1"
    and "int i * trainBatchSize P + int (length b) \<noteq> 0"
  shows "events_of (test_batch P E epoch num (i, b) s) =
     trace s @
     [test_img_saved (int i),
      print_numImages ''Test'' epoch (int i * testBatchSize P + int (length b)),
      add_scalar ''data/test_loss_epoch''
        ((running_loss_ts s + eval_loss E ''Test'' epoch (int i)) / of_int num)
        (global_step s),
      add_scalar ''data/test_miour''
        ((total_iou s + eval_iou E ''Test'' epoch (int i))
           / of_int (int i * trainBatchSize P + int (length b)))
        (global_step s),
      add_image ''Test'' (images_list s + 3) (global_step s)]"
  using assms
  by (simp add: test_batch_def Let_def emit_def raise_def events_of_def)

lemma test_batch_silent:
  assumes "b \<noteq> []" and "num \<noteq> 0" and "int i mod num \<noteq> num - 1"
  shows "events_of (test_batch P E epoch num (i, b) s) = trace s @ [test_img_saved (int i)]"
  using assms
  by (simp add: test_batch_def Let_def emit_def raise_def events_of_def)

lemma example_network:
  "trace (init_state (projr (network_definition (script_settings example_config))) []) = []
   \<and> total_iou (init_state (projr (network_definition (script_settings example_config))) []) = 0
   \<and> running_loss_val
        (init_state (projr (network_definition (script_settings example_config))) []) = 0
   \<and> running_loss_ts
        (init_state (projr (network_definition (script_settings example_config))) []) = 0
   \<and> global_step
        (init_state (projr (network_definition (script_settings example_config))) []) = 0
   \<and> images_list
        (init_state (projr (network_definition (script_settings example_config))) []) = 0"
  by (simp add: init_state_def)

lemma validation_batch_silent:
  assumes "num \<noteq> 0" and "int i mod num \<noteq> num - 1"
  shows "validation_batch P E epoch num (i, b) s =
     Inr (s\<lparr> running_loss_val := running_loss_val s + eval_loss E ''Validation'' epoch (int i),
             total_iou := total_iou s + eval_iou E ''Validation'' epoch (int i) \<rparr>)"
  using assms by (simp add: validation_batch_def Let_def)

lemma validation_prefix:
  "int (k + length cs) < num \<Longrightarrow>
   for_each (validation_batch P E epoch num) (List.enumerate k cs) s =
     Inr (s\<lparr> running_loss_val := running_loss_val s
               + (\<Sum>j\<leftarrow>[k..<k + length cs]. eval_loss E ''Validation'' epoch (int j)),
             total_iou := total_iou s
               + (\<Sum>j\<leftarrow>[k..<k + length cs]. eval_iou E ''Validation'' epoch (int j)) \<rparr>)"
proof (induction cs arbitrary: k s)
  case Nil
  then show ?case by simp
next
  case (Cons c cs)
  from Cons.prems have n0: "num \<noteq> 0" and nb: "int k mod num \<noteq> num - 1"
    by auto
  have rest: "int (Suc k + length cs) < num" using Cons.prems by simp
  have up: "[k..<k + length (c # cs)] = k # [Suc k..<Suc k + length cs]"
    using upt_conv_Cons [of k "k + Suc (length cs)"] by (simp del: upt_Suc)
  show ?case
    unfolding up
    by (simp add: validation_batch_silent [OF n0 nb] Cons.IH [OF rest] add.assoc)
qed

lemma validation_batch_last:
  assumes "num \<noteq> 0" and "int i mod num = num - 1"
    and "int i * trainBatchSize P + int (length b) \<noteq> 0"
  shows "validation_batch P E epoch num (i, b) s =
     (if length b < 2 then
        Inl (IndexError, trace s @
          [print_numImages ''Validation'' epoch (int i * trainBatchSize P + int (length b)),
           add_scalar ''data/val_loss_epoch''
             ((running_loss_val s + eval_loss E ''Validation'' epoch (int i)) / of_int num)
             (global_step s),
           add_scalar ''data/val_miour''
             ((total_iou s + eval_iou E ''Validation'' epoch (int i))
                / of_int (int i * trainBatchSize P + int (length b)))
             (global_step s)])
      else
        Inr (s\<lparr> running_loss_val := 0,
                total_iou := total_iou s + eval_iou E ''Validation'' epoch (int i),
                images_list := 6,
                trace := trace s @
          [print_numImages ''Validation'' epoch (int i * trainBatchSize P + int (length b)),
           add_scalar ''data/val_loss_epoch''
             ((running_loss_val s + eval_loss E ''Validation'' epoch (int i)) / of_int num)
             (global_step s),
           add_scalar ''data/val_miour''
             ((total_iou s + eval_iou E ''Validation'' epoch (int i))
                / of_int (int i * trainBatchSize P + int (length b)))
             (global_step s),
           add_image ''Validation'' 6 (global_step s)] \<rparr>))"
  using assms by (simp add: validation_batch_def Let_def emit_def raise_def)


lemma validation_loop:
  assumes ne: "bs \<noteq> []" and full: "\<forall>b \<in> set bs. int (length b) = trainBatchSize P"
    and pos: "0 < trainBatchSize P"
  shows "for_each (validation_batch P E epoch (int (length bs))) (List.enumerate 0 bs) s =
     (if trainBatchSize P < 2 then
        Inl (IndexError, trace s @
          [print_numImages ''Validation'' epoch
             (int (length bs - 1) * trainBatchSize P + trainBatchSize P),
           add_scalar ''data/val_loss_epoch''
             ((running_loss_val s
                 + (\<Sum>j\<leftarrow>[0..<length bs]. eval_loss E ''Validation'' epoch (int j)))
                / of_int (int (length bs)))
             (global_step s),
           add_scalar ''data/val_miour''
             ((total_iou s + (\<Sum>j\<leftarrow>[0..<length bs]. eval_iou E ''Validation'' epoch (int j)))
                / of_int (int (length bs - 1) * trainBatchSize P + trainBatchSize P))
             (global_step s)])
      else
        Inr (s\<lparr> running_loss_val := 0,
                total_iou := total_iou s
                  + (\<Sum>j\<leftarrow>[0..<length bs]. eval_iou E ''Validation'' epoch (int j)),
                images_list := 6,
                trace := trace s @
          [print_numImages ''Validation'' epoch
             (int (length bs - 1) * trainBatchSize P + trainBatchSize P),
           add_scalar ''data/val_loss_epoch''
             ((running_loss_val s
                 + (\<Sum>j\<leftarrow>[0..<length bs]. eval_loss E ''Validation'' epoch (int j)))
                / of_int (int (length bs)))
             (global_step s),
           add_scalar ''data/val_miour''
             ((total_iou s + (\<Sum>j\<leftarrow>[0..<length bs]. eval_iou E ''Validation'' epoch (int j)))
                / of_int (int (length bs - 1) * trainBatchSize P + trainBatchSize P))
             (global_step s),
           add_image ''Validation'' 6 (global_step s)] \<rparr>))"
proof -
  from ne obtain cs c where bs: "bs = cs @ [c]"
    by (cases bs rule: rev_cases) auto
  have len: "int (length c) = trainBatchSize P" using full bs by simp
  have lt: "length c < 2 \<longleftrightarrow> trainBatchSize P < 2" using len by linarith
  have en: "List.enumerate 0 bs = List.enumerate 0 cs @ [(length cs, c)]"
    by (simp add: bs enumerate_append_eq)
  have pre: "int (0 + length cs) < int (length bs)" by (simp add: bs)
  have n0: "int (length bs) \<noteq> 0" by (simp add: bs)
  have md: "int (length cs) mod int (length bs) = int (length bs) - 1"
    by (simp add: bs)
  have den: "int (length cs) * trainBatchSize P + int (length c) \<noteq> 0"
  proof -
    have "0 \<le> int (length cs) * trainBatchSize P" using pos by simp
    then show ?thesis using len pos by linarith
  qed
  have l1: "length bs - 1 = length cs" by (simp add: bs)
  have up: "[0..<length bs] = [0..<length cs] @ [length cs]" by (simp add: bs)
  show ?thesis
    unfolding en for_each_append validation_prefix [OF pre] l1 up
    by (simp add: validation_batch_last [OF n0 md den] len lt add.assoc)
qed


lemma test_batch_silent_state:
  assumes "b \<noteq> []" and "num \<noteq> 0" and "int i mod num \<noteq> num - 1"
  shows "test_batch P E epoch num (i, b) s =
     Inr (s\<lparr> running_loss_ts := running_loss_ts s + eval_loss E ''Test'' epoch (int i),
             total_iou := total_iou s + eval_iou E ''Test'' epoch (int i),
             trace := trace s @ [test_img_saved (int i)] \<rparr>)"
  using assms by (simp add: test_batch_def Let_def emit_def)

lemma test_prefix:
  "int (k + length cs) < num \<Longrightarrow> \<forall>c \<in> set cs. c \<noteq> [] \<Longrightarrow>
   for_each (test_batch P E epoch num) (List.enumerate k cs) s =
     Inr (s\<lparr> running_loss_ts := running_loss_ts s
               + (\<Sum>j\<leftarrow>[k..<k + length cs]. eval_loss E ''Test'' epoch (int j)),
             total_iou := total_iou s
               + (\<Sum>j\<leftarrow>[k..<k + length cs]. eval_iou E ''Test'' epoch (int j)),
             trace := trace s @ map (\<lambda>j. test_img_saved (int j)) [k..<k + length cs] \<rparr>)"
proof (induction cs arbitrary: k s)
  case Nil
  then show ?case by simp
next
  case (Cons c cs)
  from Cons.prems have n0: "num \<noteq> 0" and nb: "int k mod num \<noteq> num - 1"
    and c: "c \<noteq> []" and cs: "\<forall>c \<in> set cs. c \<noteq> []"
    by auto
  have rest: "int (Suc k + length cs) < num" using Cons.prems by simp
  have up: "[k..<k + length (c # cs)] = k # [Suc k..<Suc k + length cs]"
    using upt_conv_Cons [of k "k + Suc (length cs)"] by (simp del: upt_Suc)
  show ?case
    unfolding up
    by (simp add: test_batch_silent_state [OF c n0 nb] Cons.IH [OF rest cs] add.assoc)
qed

lemma test_batch_last:
  assumes "b \<noteq> []" and "num \<noteq> 0" and "int i mod num = num - 1"
    and "int i * trainBatchSize P + int (length b) \<noteq> 0"
  shows "test_batch P E epoch num (i, b) s =
     Inr (s\<lparr> running_loss_ts := 0,
             total_iou := total_iou s + eval_iou E ''Test'' epoch (int i),
             images_list := images_list s + 3,
             trace := trace s @
               [test_img_saved (int i),
                print_numImages ''Test'' epoch (int i * testBatchSize P + int (length b)),
                add_scalar ''data/test_loss_epoch''
                  ((running_loss_ts s + eval_loss E ''Test'' epoch (int i)) / of_int num)
                  (global_step s),
                add_scalar ''data/test_miour''
                  ((total_iou s + eval_iou E ''Test'' epoch (int i))
                     / of_int (int i * trainBatchSize P + int (length b)))
                  (global_step s),
                add_image ''Test'' (images_list s + 3) (global_step s)] \<rparr>)"
  using assms by (simp add: test_batch_def Let_def emit_def raise_def)

lemma test_loop:
  assumes ne: "bs \<noteq> []" and full: "\<forall>b \<in> set bs. int (length b) = trainBatchSize P"
    and pos: "0 < trainBatchSize P"
  shows "for_each (test_batch P E epoch (int (length bs))) (List.enumerate 0 bs) s =
     Inr (s\<lparr> running_loss_ts := 0,
             total_iou := total_iou s
               + (\<Sum>j\<leftarrow>[0..<length bs]. eval_iou E ''Test'' epoch (int j)),
             images_list := images_list s + 3,
             trace := trace s @ map (\<lambda>j. test_img_saved (int j)) [0..<length bs] @
               [print_numImages ''Test'' epoch
                  (int (length bs - 1) * testBatchSize P + trainBatchSize P),
                add_scalar ''data/test_loss_epoch''
                  ((running_loss_ts s
                      + (\<Sum>j\<leftarrow>[0..<length bs]. eval_loss E ''Test'' epoch (int j)))
                     / of_int (int (length bs)))
                  (global_step s),
                add_scalar ''data/test_miour''
                  ((total_iou s + (\<Sum>j\<leftarrow>[0..<length bs]. eval_iou E ''Test'' epoch (int j)))
                     / of_int (int (length bs - 1) * trainBatchSize P + trainBatchSize P))
                  (global_step s),
                add_image ''Test'' (images_list s + 3) (global_step s)] \<rparr>)"
proof -
  from ne obtain cs c where bs: "bs = cs @ [c]"
    by (cases bs rule: rev_cases) auto
  have len: "int (length c) = trainBatchSize P" using full bs by simp
  have c: "c \<noteq> []" using len pos by auto
  have cs: "\<forall>c \<in> set cs. c \<noteq> []" using full pos bs by auto
  have en: "List.enumerate 0 bs = List.enumerate 0 cs @ [(length cs, c)]"
    by (simp add: bs enumerate_append_eq)
  have pre: "int (0 + length cs) < int (length bs)" by (simp add: bs)
  have n0: "int (length bs) \<noteq> 0" by (simp add: bs)
  have md: "int (length cs) mod int (length bs) = int (length bs) - 1"
    by (simp add: bs)
  have den: "int (length cs) * trainBatchSize P + int (length c) \<noteq> 0"
  proof -
    have "0 \<le> int (length cs) * trainBatchSize P" using pos by simp
    then show ?thesis using len pos by linarith
  qed
  have l1: "length bs - 1 = length cs" by (simp add: bs)
  have up: "[0..<length bs] = [0..<length cs] @ [length cs]" by (simp add: bs)
  show ?thesis
    unfolding en for_each_append test_prefix [OF pre cs] l1 up
    by (simp add: test_batch_last [OF c n0 md den] len add.assoc)
qed

lemma validation_pass_result:
  assumes asm: "assemble P C E = Inr L"
    and ne: "batches_of E epoch (validationloader L) \<noteq> []"
  shows "validation_pass P E L epoch s =
     (if trainBatchSize P < 2 then
        Inl (IndexError, trace s @
          [print_numImages ''Validation'' epoch
             ((num_img_val L - 1) * trainBatchSize P + trainBatchSize P),
           add_scalar ''data/val_loss_epoch''
             ((running_loss_val s
                 + (\<Sum>j\<leftarrow>[0..<nat (num_img_val L)]. eval_loss E ''Validation'' epoch (int j)))
                / of_int (num_img_val L))
             (global_step s),
           add_scalar ''data/val_miour''
             ((\<Sum>j\<leftarrow>[0..<nat (num_img_val L)]. eval_iou E ''Validation'' epoch (int j))
                / of_int ((num_img_val L - 1) * trainBatchSize P + trainBatchSize P))
             (global_step s)])
      else
        Inr (s\<lparr> running_loss_val := 0,
                total_iou :=
                  (\<Sum>j\<leftarrow>[0..<nat (num_img_val L)]. eval_iou E ''Validation'' epoch (int j)),
                images_list := 6,
                trace := trace s @
          [print_numImages ''Validation'' epoch
             ((num_img_val L - 1) * trainBatchSize P + trainBatchSize P),
           add_scalar ''data/val_loss_epoch''
             ((running_loss_val s
                 + (\<Sum>j\<leftarrow>[0..<nat (num_img_val L)]. eval_loss E ''Validation'' epoch (int j)))
                / of_int (num_img_val L))
             (global_step s),
           add_scalar ''data/val_miour''
             ((\<Sum>j\<leftarrow>[0..<nat (num_img_val L)]. eval_iou E ''Validation'' epoch (int j))
                / of_int ((num_img_val L - 1) * trainBatchSize P + trainBatchSize P))
             (global_step s),
           add_image ''Validation'' 6 (global_step s)] \<rparr>))"
proof -
  let ?bs = "batches_of E epoch (validationloader L)"
  have X: "validationloader L \<in> {trainloader L, validationloader L, testloader L}" by simp
  note lb = loader_batches [OF asm X]
  have n: "num_img_val L = int (length ?bs)" by (simp add: num_img_val_def lb(2))
  have n1: "int (length ?bs) - 1 = int (length ?bs - 1)" using ne by (cases ?bs) auto
  show ?thesis
    unfolding validation_pass_def n nat_int n1
    by (simp add: validation_loop [OF ne lb(3) lb(1)])
qed

lemma test_pass_result:
  assumes asm: "assemble P C E = Inr L"
    and ne: "batches_of E epoch (testloader L) \<noteq> []"
  shows "test_pass P E L epoch s =
     Inr (s\<lparr> running_loss_ts := 0,
             total_iou := (\<Sum>j\<leftarrow>[0..<nat (num_img_ts L)]. eval_iou E ''Test'' epoch (int j)),
             images_list := images_list s + 3,
             trace := trace s @ map (\<lambda>j. test_img_saved (int j)) [0..<nat (num_img_ts L)] @
               [print_numImages ''Test'' epoch
                  ((num_img_ts L - 1) * testBatchSize P + trainBatchSize P),
                add_scalar ''data/test_loss_epoch''
                  ((running_loss_ts s
                      + (\<Sum>j\<leftarrow>[0..<nat (num_img_ts L)]. eval_loss E ''Test'' epoch (int j)))
                     / of_int (num_img_ts L))
                  (global_step s),
                add_scalar ''data/test_miour''
                  ((\<Sum>j\<leftarrow>[0..<nat (num_img_ts L)]. eval_iou E ''Test'' epoch (int j))
                     / of_int ((num_img_ts L - 1) * trainBatchSize P + trainBatchSize P))
                  (global_step s),
                add_image ''Test'' (images_list s + 3) (global_step s)] \<rparr>)"
proof -
  let ?bs = "batches_of E epoch (testloader L)"
  have X: "testloader L \<in> {trainloader L, validationloader L, testloader L}" by simp
  note lb = loader_batches [OF asm X]
  have n: "num_img_ts L = int (length ?bs)" by (simp add: num_img_ts_def lb(2))
  have n1: "int (length ?bs) - 1 = int (length ?bs - 1)" using ne by (cases ?bs) auto
  show ?thesis
    unfolding test_pass_def n nat_int n1
    by (simp add: test_loop [OF ne lb(3) lb(1)])
qed

text \<open>
  Claim C3. In an evaluation (every \<open>nTestInterval\<close>-th epoch when \<open>useTest\<close> holds) over the
  assembled loaders, each pass reports once, at the batch index \<open>ii = num - 1\<close> for the pass
  length \<open>num\<close>, the only index of the pass with \<open>ii mod num = num - 1\<close>. The mean IoU
  written there, under \<open>data/val_miour\<close> for the validation pass and \<open>data/test_miour\<close> for the
  test pass, is the \<open>total_iou\<close> accumulated over the batches of that pass from 0 divided by
  \<open>ii * trainBatchSize + inputs.shape[0]\<close>, where every batch has \<open>trainBatchSize\<close> items. With
  a batch size of 1 the validation grid raises after the validation report, and the test
  pass is not reached.
\<close>

theorem evaluation_reports_pass_miou:
  assumes "assemble P C E = Inr L"
    and "useTest P" and "nTestInterval P \<noteq> 0"
    and "epoch mod nTestInterval P = nTestInterval P - 1"
    and "batches_of E epoch (validationloader L) \<noteq> []"
    and "batches_of E epoch (testloader L) \<noteq> []"
  shows "events_of (evaluate P E L epoch s) =
       trace s @
       [net_eval,
        print_numImages ''Validation'' epoch
          ((num_img_val L - 1) * trainBatchSize P + trainBatchSize P),
        add_scalar ''data/val_loss_epoch''
          ((running_loss_val s
              + (\<Sum>j\<leftarrow>[0..<nat (num_img_val L)]. eval_loss E ''Validation'' epoch (int j)))
             / of_int (num_img_val L))
          (global_step s),
        add_scalar ''data/val_miour''
          ((\<Sum>j\<leftarrow>[0..<nat (num_img_val L)]. eval_iou E ''Validation'' epoch (int j))
             / of_int ((num_img_val L - 1) * trainBatchSize P + trainBatchSize P))
          (global_step s)]
       @ (if trainBatchSize P < 2 then []
          else
            [add_image ''Validation'' 6 (global_step s)]
            @ map (\<lambda>j. test_img_saved (int j)) [0..<nat (num_img_ts L)]
            @ [print_numImages ''Test'' epoch
                 ((num_img_ts L - 1) * testBatchSize P + trainBatchSize P),
               add_scalar ''data/test_loss_epoch''
                 ((running_loss_ts s
                     + (\<Sum>j\<leftarrow>[0..<nat (num_img_ts L)]. eval_loss E ''Test'' epoch (int j)))
                    / of_int (num_img_ts L))
                 (global_step s),
               add_scalar ''data/test_miour''
                 ((\<Sum>j\<leftarrow>[0..<nat (num_img_ts L)]. eval_iou E ''Test'' epoch (int j))
                    / of_int ((num_img_ts L - 1) * trainBatchSize P + trainBatchSize P))
                 (global_step s),
               add_image ''Test'' 9 (global_step s)])
     \<and> num_img_val L = int (length (batches_of E epoch (validationloader L)))
     \<and> num_img_ts L = int (length (batches_of E epoch (testloader L)))
     \<and> (\<forall>b \<in> set (batches_of E epoch (validationloader L)
                    @ batches_of E epoch (testloader L)). int (length b) = trainBatchSize P)"
proof -
  have Xv: "validationloader L \<in> {trainloader L, validationloader L, testloader L}" by simp
  have Xt: "testloader L \<in> {trainloader L, validationloader L, testloader L}" by simp
  note lv = loader_batches [OF assms(1) Xv]
  note lt = loader_batches [OF assms(1) Xt]
  have ev: "evaluate P E L epoch s =
      and_then (validation_pass P E L epoch ((emit net_eval s)\<lparr> images_list := 0 \<rparr>))
        (test_pass P E L epoch)"
    using assms(2-4) by (simp add: evaluate_def)
  have 1: "events_of (evaluate P E L epoch s) = trace s @
       [net_eval,
        print_numImages ''Validation'' epoch
          ((num_img_val L - 1) * trainBatchSize P + trainBatchSize P),
        add_scalar ''data/val_loss_epoch''
          ((running_loss_val s
              + (\<Sum>j\<leftarrow>[0..<nat (num_img_val L)]. eval_loss E ''Validation'' epoch (int j)))
             / of_int (num_img_val L))
          (global_step s),
        add_scalar ''data/val_miour''
          ((\<Sum>j\<leftarrow>[0..<nat (num_img_val L)]. eval_iou E ''Validation'' epoch (int j))
             / of_int ((num_img_val L - 1) * trainBatchSize P + trainBatchSize P))
          (global_step s)]
       @ (if trainBatchSize P < 2 then []
          else
            [add_image ''Validation'' 6 (global_step s)]
            @ map (\<lambda>j. test_img_saved (int j)) [0..<nat (num_img_ts L)]
            @ [print_numImages ''Test'' epoch
                 ((num_img_ts L - 1) * testBatchSize P + trainBatchSize P),
               add_scalar ''data/test_loss_epoch''
                 ((running_loss_ts s
                     + (\<Sum>j\<leftarrow>[0..<nat (num_img_ts L)]. eval_loss E ''Test'' epoch (int j)))
                    / of_int (num_img_ts L))
                 (global_step s),
               add_scalar ''data/test_miour''
                 ((\<Sum>j\<leftarrow>[0..<nat (num_img_ts L)]. eval_iou E ''Test'' epoch (int j))
                    / of_int ((num_img_ts L - 1) * trainBatchSize P + trainBatchSize P))
                 (global_step s),
               add_image ''Test'' 9 (global_step s)])"
    unfolding ev validation_pass_result [OF assms(1,5)]
    by (simp add: test_pass_result [OF assms(1,6)] events_of_def emit_def)
  have 2: "num_img_val L = int (length (batches_of E epoch (validationloader L)))"
    by (simp add: num_img_val_def lv(2))
  have 3: "num_img_ts L = int (length (batches_of E epoch (testloader L)))"
    by (simp add: num_img_ts_def lt(2))
  have 4: "\<forall>b \<in> set (batches_of E epoch (validationloader L)
                    @ batches_of E epoch (testloader L)). int (length b) = trainBatchSize P"
    using lv(3) lt(3) by auto
  show ?thesis using 1 2 3 4 by blast
qed

lemma graded_assemble:
  "assemble (script_settings example_config) example_config graded_env
     = Inr (projr (assemble (script_settings example_config) example_config graded_env))"
proof -
  have "len_db graded_env = len_db example_env" by (simp add: graded_env_def)
  from assemble_len_db [OF this] example_assemble show ?thesis by simp
qed

lemma trained_once_state:
  "global_step trained_once = 2" "running_loss_val trained_once = 0"
  "running_loss_ts trained_once = 0"
  by (code_simp, code_simp, code_simp)

lemma graded_passes:
  "num_img_val (projr (assemble (script_settings example_config) example_config graded_env)) = 2"
  "num_img_ts (projr (assemble (script_settings example_config) example_config graded_env)) = 2"
  by (code_simp, code_simp)

theorem evaluation_reports_pass_miou_witness:
  "events_of (evaluate (script_settings example_config) graded_env
      (projr (assemble (script_settings example_config) example_config graded_env)) 0
      trained_once) =
     trace trained_once @
     [net_eval,
      print_numImages ''Validation'' 0 4,
      add_scalar ''data/val_loss_epoch'' (3 / 2) 2,
      add_scalar ''data/val_miour'' (5 / 4) 2,
      add_image ''Validation'' 6 2,
      test_img_saved 0, test_img_saved 1,
      print_numImages ''Test'' 0 3,
      add_scalar ''data/test_loss_epoch'' (3 / 2) 2,
      add_scalar ''data/test_miour'' (7 / 4) 2,
      add_image ''Test'' 9 2]"
proof -
  have B: "trainBatchSize (script_settings example_config) = 2"
    "testBatchSize (script_settings example_config) = 1"
    "useTest (script_settings example_config)"
    "nTestInterval (script_settings example_config) = 1"
    by (simp_all add: script_settings_def example_config_def)
  have ev: "eval_iou graded_env = graded_iou" "eval_loss graded_env = graded_loss"
    by (simp_all add: graded_env_def)
  have nv: "batches_of graded_env 0 (validationloader
      (projr (assemble (script_settings example_config) example_config graded_env))) \<noteq> []"
    by code_simp
  have nt: "batches_of graded_env 0 (testloader
      (projr (assemble (script_settings example_config) example_config graded_env))) \<noteq> []"
    by code_simp
  have up2: "[0..<2] = [0, Suc 0]"
    by code_simp
  show ?thesis
    using evaluation_reports_pass_miou [OF graded_assemble _ _ _ nv nt, of trained_once]
    by (simp add: B ev graded_passes trained_once_state graded_loss_def graded_iou_def
          up2)
qed


section \<open>The image count printed by the test pass\<close>

text \<open>
  Claim C9, as stated, fails on a test pass of a single batch. With the training batch size
  2 and a test source of three samples the pass has one batch of two samples; the report is
  made at batch index 0, where the printed count is \<open>0 * 1 + 2 = 2\<close> and the mean IoU is the
  accumulated IoU 3 divided by \<open>0 * 2 + 2 = 2\<close>: the two counts agree although the training
  batch size is not 1.
\<close>

theorem single_batch_test_pass_counts_agree:
  "trainBatchSize (script_settings single_batch_config) = 2
   \<and> testBatchSize (script_settings single_batch_config) = 1
   \<and> map length (batches_of example_env 0 (testloader
         (projr (assemble (script_settings single_batch_config) single_batch_config
                   example_env)))) = [2]
   \<and> events_of (test_pass (script_settings single_batch_config) example_env
         (projr (assemble (script_settings single_batch_config) single_batch_config
                   example_env)) 0
         (init_state (projr (network_definition (script_settings single_batch_config))) []))
       = [test_img_saved 0, print_numImages ''Test'' 0 2,
          add_scalar ''data/test_loss_epoch'' 3 0,
          add_scalar ''data/test_miour'' (3 / 2) 0, add_image ''Test'' 3 0]"
  by code_simp

text \<open>
  Claim C9, amended. The test loader is built with the training batch size, and every batch
  of a test pass has that many samples. Only the last batch of the pass reports; there the
  mean IoU is the accumulated IoU divided by \<open>ii * trainBatchSize + trainBatchSize\<close> while the
  count printed is \<open>ii * testBatchSize + trainBatchSize\<close>, and every other batch only saves
  its image. The two counts differ exactly when the reporting index \<open>ii\<close> is not 0, that is
  when the pass has at least two batches, and the training batch size differs from
  \<open>testBatchSize\<close>, which the script sets to 1.
\<close>

theorem test_pass_printed_count:
  assumes "assemble P C E = Inr L"
    and "i < length (batches_of E epoch (testloader L))"
  shows "dl_batch_size (testloader L) = trainBatchSize P
       \<and> int (length (batches_of E epoch (testloader L) ! i)) = trainBatchSize P
       \<and> len_loader (testloader L) = int (length (batches_of E epoch (testloader L)))
       \<and> (if Suc i = length (batches_of E epoch (testloader L)) then
            events_of (test_batch P E epoch (len_loader (testloader L))
                         (i, batches_of E epoch (testloader L) ! i) s) =
              trace s @
              [test_img_saved (int i),
               print_numImages ''Test'' epoch (int i * testBatchSize P + trainBatchSize P),
               add_scalar ''data/test_loss_epoch''
                 ((running_loss_ts s + eval_loss E ''Test'' epoch (int i))
                    / of_int (len_loader (testloader L)))
                 (global_step s),
               add_scalar ''data/test_miour''
                 ((total_iou s + eval_iou E ''Test'' epoch (int i))
                    / of_int (int i * trainBatchSize P + trainBatchSize P))
                 (global_step s),
               add_image ''Test'' (images_list s + 3) (global_step s)]
          else
            events_of (test_batch P E epoch (len_loader (testloader L))
                         (i, batches_of E epoch (testloader L) ! i) s) =
              trace s @ [test_img_saved (int i)])
       \<and> ((int i * testBatchSize P + trainBatchSize P
              = int i * trainBatchSize P + trainBatchSize P)
            = (i = 0 \<or> testBatchSize P = trainBatchSize P))
       \<and> testBatchSize (script_settings C) = 1"
proof -
  let ?bs = "batches_of E epoch (testloader L)"
  let ?b = "?bs ! i"
  let ?n = "len_loader (testloader L)"
  from assemble_Inr [OF assms(1)] have
    pos: "0 < trainBatchSize P"
    and te: "testloader L = \<lparr> dl_dataset = items E (test_source P (last (datasetsReal C))),
           dl_batch_size = trainBatchSize P, dl_shuffle = False,
           dl_num_workers = 4, dl_drop_last = True \<rparr>"
    by auto
  have B: "dl_batch_size (testloader L) = trainBatchSize P"
    and d: "dl_drop_last (testloader L)"
    by (simp_all add: te)
  have p: "0 < dl_batch_size (testloader L)" using pos B by simp
  have n: "?n = int (length ?bs)"
    using length_batches_of(1) [OF p d, of E epoch] length_batches_of(2) [OF p d] by simp
  have mem: "?b \<in> set ?bs" using assms(2) by simp
  have len: "int (length ?b) = trainBatchSize P"
    using mem d batch_sampler_full [of ?b "nat (dl_batch_size (testloader L))"
        "sampled_order E epoch (testloader L)"] p B
    by (simp add: batches_of_def)
  have ne: "?b \<noteq> []" using len pos by auto
  have n0: "?n \<noteq> 0" using n assms(2) by auto
  have md: "int i mod ?n = int i" using n assms(2) by simp
  have den: "int i * trainBatchSize P + int (length ?b) \<noteq> 0"
  proof -
    have "0 \<le> int i * trainBatchSize P" using pos by simp
    then show ?thesis using len pos by linarith
  qed
  have last: "events_of (test_batch P E epoch ?n (i, ?b) s) =
              trace s @
              [test_img_saved (int i),
               print_numImages ''Test'' epoch (int i * testBatchSize P + trainBatchSize P),
               add_scalar ''data/test_loss_epoch''
                 ((running_loss_ts s + eval_loss E ''Test'' epoch (int i)) / of_int ?n)
                 (global_step s),
               add_scalar ''data/test_miour''
                 ((total_iou s + eval_iou E ''Test'' epoch (int i))
                    / of_int (int i * trainBatchSize P + trainBatchSize P))
                 (global_step s),
               add_image ''Test'' (images_list s + 3) (global_step s)]"
    if "Suc i = length ?bs"
  proof -
    from that n md have "int i mod ?n = ?n - 1" by simp
    from test_batch_report [OF ne n0 this den, of E epoch s] show ?thesis
      by (simp only: len)
  qed
  have other: "events_of (test_batch P E epoch ?n (i, ?b) s) = trace s @ [test_img_saved (int i)]"
    if "Suc i \<noteq> length ?bs"
  proof -
    from that n md have "int i mod ?n \<noteq> ?n - 1" by auto
    from test_batch_silent [OF ne n0 this] show ?thesis .
  qed
  have differ: "(int i * testBatchSize P + trainBatchSize P
              = int i * trainBatchSize P + trainBatchSize P)
            = (i = 0 \<or> testBatchSize P = trainBatchSize P)"
    by auto
  have one: "testBatchSize (script_settings C) = 1"
    by (simp add: script_settings_def)
  show ?thesis using B len n last other differ one by simp
qed

theorem test_pass_printed_count_witness:
  "events_of (test_batch (script_settings example_config) example_env 0 2
      (1, batches_of example_env 0 (testloader
            (projr (assemble (script_settings example_config) example_config example_env))) ! 1)
      (init_state (projr (network_definition (script_settings example_config))) [])) =
     [test_img_saved 1,
      print_numImages ''Test'' 0 3,
      add_scalar ''data/test_loss_epoch'' (3 / 2) 0,
      add_scalar ''data/test_miour'' (3 / 4) 0,
      add_image ''Test'' 3 0]"
proof -
  define bs where "bs = batches_of example_env 0 (testloader
      (projr (assemble (script_settings example_config) example_config example_env)))"
  have len: "length bs = 2"
    unfolding bs_def by code_simp
  have B: "trainBatchSize (script_settings example_config) = 2"
    "testBatchSize (script_settings example_config) = 1"
    by (simp_all add: script_settings_def example_config_def)
  have ev: "eval_iou example_env = example_eval" "eval_loss example_env = example_eval"
    by (simp_all add: example_env_def)
  have lt: "1 < length (batches_of example_env 0 (testloader
      (projr (assemble (script_settings example_config) example_config example_env))))"
    using len unfolding bs_def by simp
  show ?thesis
    using test_pass_printed_count [OF example_assemble lt,
          where s = "init_state (projr (network_definition (script_settings example_config))) []"]
    unfolding bs_def [symmetric]
    by (elim conjE) (simp add: len B example_network ev example_eval_def)
qed

end
